theory Spec2Isabelle
  imports Main "HOL-Library.Sublist"
begin

section \<open>Text primitives of the ledger parsers\<close>

text \<open>
  The parsers work on the text that the PDF library extracts from each page. A text is
  a \<open>string\<close>, one \<open>char\<close> per code point, so the texts of the model are the texts over
  the code points below 256. On these the character classes are the ones of Python:
  \<open>isspace\<close> is \<open>str.isspace\<close> (the class of \<open>split\<close>, \<open>strip\<close> and of \<open>\s\<close> in a pattern),
  \<open>isdigit\<close> is \<open>str.isdigit\<close>, \<open>re_digit\<close> is \<open>\d\<close> in a pattern, \<open>upper\<close> is \<open>str.upper\<close>.
  Python's \<open>None\<close> is \<open>None\<close> of an option type, an exception is the error branch of
  \<open>py_error + 'a\<close>.
\<close>

datatype py_error = IndexError | KeyError | TypeError | OpenError

definition isspace :: "char \<Rightarrow> bool" where
  "isspace c = (c \<in> set [CHR 0x09, CHR 0x0A, CHR 0x0B, CHR 0x0C, CHR 0x0D,
                           CHR 0x1C, CHR 0x1D, CHR 0x1E, CHR 0x1F, CHR '' '',
                           CHR 0x85, CHR 0xA0])"

definition re_digit :: "char \<Rightarrow> bool" where
  "re_digit c = (c \<in> set ''0123456789'')"

text \<open>\<open>str.isdigit\<close> also holds for the superscripts 2, 3 and 1.\<close>

definition isdigit :: "char \<Rightarrow> bool" where
  "isdigit c = (re_digit c \<or> c \<in> set [CHR 0xB2, CHR 0xB3, CHR 0xB9])"

definition isupper_az :: "char \<Rightarrow> bool" where
  "isupper_az c = (c \<in> set ''ABCDEFGHIJKLMNOPQRSTUVWXYZ'')"

definition islower_az :: "char \<Rightarrow> bool" where
  "islower_az c = (c \<in> set ''abcdefghijklmnopqrstuvwxyz'')"

text \<open>A small letter and its capital differ in one bit (\<open>0x20\<close>), among the letters
  \<open>a\<close> to \<open>z\<close> and among the accented letters \<open>0xE0\<close> to \<open>0xFE\<close>.\<close>

definition clear5 :: "char \<Rightarrow> char" where
  "clear5 c = Char (digit0 c) (digit1 c) (digit2 c) (digit3 c) (digit4 c) False
                   (digit6 c) (digit7 c)"

definition set5 :: "char \<Rightarrow> char" where
  "set5 c = Char (digit0 c) (digit1 c) (digit2 c) (digit3 c) (digit4 c) True
                 (digit6 c) (digit7 c)"

definition upper_char :: "char \<Rightarrow> char" where
  "upper_char c = (if islower_az c then clear5 c else c)"

definition lower_char :: "char \<Rightarrow> char" where
  "lower_char c = (if isupper_az c then set5 c else c)"

text \<open>\<open>str.upper\<close>, one character at a time: the sharp s \<open>0xDF\<close> becomes \<open>SS\<close>, the
  accented small letters \<open>0xE0\<close> to \<open>0xFE\<close> (the division sign \<open>0xF7\<close> apart) become their
  capitals. The capitals of the micro sign \<open>0xB5\<close> and of \<open>0xFF\<close> are code points above 255,
  which a \<open>char\<close> cannot hold: the model leaves these two characters as they are. Neither
  they nor their capitals occur in a text that the parsers look for, so every test of the
  form \<open>"..." in s.upper()\<close> has the value it has in Python.\<close>

definition upper_chars :: "char \<Rightarrow> string" where
  "upper_chars c =
     (if digit7 c then
        (if c = CHR 0xDF then ''SS''
         else if digit6 c \<and> digit5 c \<and> c \<noteq> CHR 0xF7 \<and> c \<noteq> CHR 0xFF then [clear5 c]
         else [c])
      else [upper_char c])"

definition upper :: "string \<Rightarrow> string" where
  "upper s = concat (map upper_chars s)"

text \<open>\<open>sub in s\<close>: the text \<open>sub\<close> occurs in \<open>s\<close>.\<close>

fun contains :: "string \<Rightarrow> string \<Rightarrow> bool" where
  "contains sub [] = (sub = [])"
| "contains sub (c # cs) = (prefix sub (c # cs) \<or> contains sub cs)"

text \<open>\<open>s.replace(old, new)\<close> for a non-empty \<open>old\<close>: every occurrence, left to right,
  without overlap.\<close>

function replace :: "string \<Rightarrow> string \<Rightarrow> string \<Rightarrow> string" where
  "replace old new [] = []"
| "replace old new (c # cs) =
     (if old \<noteq> [] \<and> prefix old (c # cs)
      then new @ replace old new (drop (length old) (c # cs))
      else c # replace old new cs)"
  by pat_completeness auto
termination
  by (relation "measure (\<lambda>(old, new, s). length s)") (auto simp: neq_Nil_conv)

text \<open>\<open>s.strip()\<close>, \<open>s.rstrip(',')\<close> and \<open>s.split()\<close> (split at runs of whitespace,
  no empty token).\<close>

definition strip :: "string \<Rightarrow> string" where
  "strip s = rev (dropWhile isspace (rev (dropWhile isspace s)))"

definition rstrip_comma :: "string \<Rightarrow> string" where
  "rstrip_comma s = rev (dropWhile (\<lambda>c. c = CHR '','') (rev s))"

fun tokens :: "string \<Rightarrow> string \<Rightarrow> string list" where
  "tokens cur [] = (if cur = [] then [] else [cur])"
| "tokens cur (c # cs) =
     (if isspace c then (if cur = [] then tokens [] cs else cur # tokens [] cs)
      else tokens (cur @ [c]) cs)"

definition split :: "string \<Rightarrow> string list" where
  "split s = tokens [] s"

text \<open>\<open>xs[i]\<close> and \<open>xs[a:b]\<close> with Python's negative indices: an index below zero counts
  from the end, an index out of range raises, a slice clamps its bounds.\<close>

definition py_index :: "'a list \<Rightarrow> int \<Rightarrow> py_error + 'a" where
  "py_index xs i =
     (if 0 \<le> i \<and> i < int (length xs) then Inr (xs ! nat i)
      else if i < 0 \<and> - int (length xs) \<le> i then Inr (xs ! nat (int (length xs) + i))
      else Inl IndexError)"

definition clamp_bound :: "nat \<Rightarrow> int \<Rightarrow> nat" where
  "clamp_bound n i = (let j = (if i < 0 then int n + i else i)
                      in if j < 0 then 0 else if int n < j then n else nat j)"

definition py_slice :: "'a list \<Rightarrow> int \<Rightarrow> int \<Rightarrow> 'a list" where
  "py_slice xs a b =
     (let lo = clamp_bound (length xs) a; hi = clamp_bound (length xs) b
      in take (hi - lo) (drop lo xs))"

section \<open>The SY pattern: subject rows (parser\_sy.py)\<close>

record subject =
  code :: string
  name :: string
  p_int :: string
  int_m :: string
  p_ext :: string
  ext_m :: string
  p_pr :: string
  pr_m :: string
  total :: string
  crd :: string
  ern :: string
  grd :: string
  gp :: string
  cp :: string

text \<open>\<open>split_prefix_marks(val)\<close>: the symbol in front of a mark and the mark. The body
  runs in a \<open>try\<close>; the only step that can raise is \<open>val.split()[1]\<close>, and the handler
  falls through to the last \<open>return\<close> with the cleaned \<open>val\<close>.\<close>

definition split_prefix_marks :: "string \<Rightarrow> string \<times> string" where
  "split_prefix_marks raw =
     (let val = strip (replace ''#'' '''' (replace ''$'' '''' (replace ''FFF'' '''' raw)))
      in if val \<in> set [''---'', ''-'', ''AB'', ''AA'', ''AAA''] then (''-'', ''-'')
         else if contains '' '' val then
           (case split val of a # b # _ \<Rightarrow> (a, b) | _ \<Rightarrow> ('''', val))
         else if val \<noteq> [] \<and> \<not> isdigit (hd val) then ([hd val], tl val)
         else ('''', val))"

definition valid_grades :: "string list" where
  "valid_grades = [''O'', ''A+'', ''A'', ''B+'', ''B'', ''C'', ''D'', ''F'', ''P'', ''AB'', ''FAIL'']"

text \<open>The scan for the grade, from the right: \<open>for i in range(1, 7)\<close>, leaving the loop
  at \<open>i >= len(parts)\<close> and at the first grade. \<open>None\<close> is \<open>grade_idx == -1\<close>.\<close>

fun scan_grade :: "string list \<Rightarrow> nat list \<Rightarrow> nat option" where
  "scan_grade parts [] = None"
| "scan_grade parts (i # rest) =
     (if i \<ge> length parts then None
      else if parts ! (length parts - i) \<in> set valid_grades then Some (length parts - i)
      else scan_grade parts rest)"

definition find_grade :: "string list \<Rightarrow> nat option" where
  "find_grade parts = scan_grade parts [1, 2, 3, 4, 5, 6]"

text \<open>The loop that joins a symbol to the mark after it.\<close>

fun merge_marks :: "string list \<Rightarrow> string list" where
  "merge_marks [] = []"
| "merge_marks [t] = [t]"
| "merge_marks (t # n # ts) =
     (if t \<in> set [''---'', ''AAA'', ''AA''] then t # merge_marks (n # ts)
      else if t \<in> set [''P'', ''*'', ''~'', ''#'', ''$'', ''@''] then (t @ '' '' @ n) # merge_marks ts
      else t # merge_marks (n # ts))"

definition pad3 :: "string list \<Rightarrow> string list" where
  "pad3 cols = cols @ replicate (3 - length cols) ''---''"

text \<open>\<open>parse_marks_row(line, subject_map)\<close>. The body of the \<open>try\<close> is
  \<open>marks_row_body\<close>; its handler returns \<open>None\<close>.\<close>

definition bind_err :: "py_error + 'a \<Rightarrow> ('a \<Rightarrow> py_error + 'b) \<Rightarrow> py_error + 'b" where
  "bind_err m f = (case m of Inl e \<Rightarrow> Inl e | Inr x \<Rightarrow> f x)"

definition marks_row_body :: "string \<Rightarrow> (string \<rightharpoonup> string) \<Rightarrow> py_error + subject option" where
  "marks_row_body line subject_map =
     (if contains ''CODE'' (upper line) \<or> contains ''NAME:'' (upper line)
         \<or> contains ''PRN:'' (upper line) then Inr None
      else let parts = split line in
      if length parts < 6 then Inr None
      else case find_grade parts of
        None \<Rightarrow> Inr None
      | Some gi \<Rightarrow>
          let grade_idx = int gi; grade_val = parts ! gi in
          bind_err (py_index parts (grade_idx - 1)) (\<lambda>ern_v.
          bind_err (py_index parts (grade_idx - 2)) (\<lambda>crd_v.
          bind_err (py_index parts (grade_idx - 3)) (\<lambda>p1.
          bind_err (py_index parts (grade_idx - 4)) (\<lambda>p2.
          let (total_v, marks_end_idx) =
                (if p1 \<in> set [''FFF'', ''FAIL'', ''AB'', ''AA'', ''$'', ''#'']
                   then (p2, grade_idx - 4)
                 else if contains ''FFF'' p1 then (replace ''FFF'' '''' p1, grade_idx - 3)
                 else (p1, grade_idx - 3));
              gp_v = (if gi + 1 < length parts then parts ! (gi + 1) else ''0'');
              cp_v = (if gi + 2 < length parts then parts ! (gi + 2) else ''0'')
          in
          bind_err (py_index parts 0) (\<lambda>p0.
          let code_v = strip (replace '':'' '''' p0);
              name_v = (case subject_map code_v of None \<Rightarrow> ''Subject Name Not Found''
                        | Some n \<Rightarrow> n);
              marks_tokens = py_slice parts 1 marks_end_idx;
              cleaned_columns = pad3 (merge_marks marks_tokens)
          in
          bind_err (py_index cleaned_columns 0) (\<lambda>c0.
          bind_err (py_index cleaned_columns 1) (\<lambda>c1.
          bind_err (py_index cleaned_columns 2) (\<lambda>c2.
          Inr (Some \<lparr> code = code_v, name = name_v,
                      p_int = fst (split_prefix_marks c0), int_m = snd (split_prefix_marks c0),
                      p_ext = fst (split_prefix_marks c1), ext_m = snd (split_prefix_marks c1),
                      p_pr = fst (split_prefix_marks c2), pr_m = snd (split_prefix_marks c2),
                      total = total_v, crd = crd_v, ern = ern_v,
                      grd = grade_val, gp = gp_v, cp = cp_v \<rparr>))))))))))"

definition parse_marks_row :: "string \<Rightarrow> (string \<rightharpoonup> string) \<Rightarrow> subject option" where
  "parse_marks_row line subject_map =
     (case marks_row_body line subject_map of Inl e \<Rightarrow> None | Inr r \<Rightarrow> r)"

section \<open>Regular expressions as the parsers use them\<close>

text \<open>
  The patterns of the three parsers use single characters and character classes,
  sequence, alternative, greedy and lazy repetition of one character class, capture
  groups, lookahead and the anchors \<open>^\<close> and \<open>$\<close> (with and without \<open>re.MULTILINE\<close>).
  A pattern is a value of \<open>re\<close>; flags are resolved when the pattern is written down
  (\<open>liti\<close> for a literal under \<open>re.IGNORECASE\<close>, \<open>anyc\<close> for the dot under \<open>re.DOTALL\<close>).
  \<open>mk\<close> is the backtracking matcher: it tries the alternatives in Python's order and
  hands each end state to the rest of the pattern, the continuation \<open>k\<close>.
\<close>

datatype re =
    Chr "char \<Rightarrow> bool"
  | Eps
  | Seq re re
  | Alt re re
  | Star "char \<Rightarrow> bool"
  | Lazy "char \<Rightarrow> bool"
  | Grp nat re
  | Ahead re
  | Bol | BolM | Eol | EolM

record mstate =
  prev :: "char option"
  rest :: string
  caps :: "nat \<rightharpoonup> string"

fun star :: "(char \<Rightarrow> bool) \<Rightarrow> (mstate \<Rightarrow> mstate option) \<Rightarrow> char option \<Rightarrow> string
               \<Rightarrow> (nat \<rightharpoonup> string) \<Rightarrow> mstate option" where
  "star p k pv [] g = k \<lparr>prev = pv, rest = [], caps = g\<rparr>"
| "star p k pv (c # cs) g =
     (if p c then
        (case star p k (Some c) cs g of
           Some r \<Rightarrow> Some r
         | None \<Rightarrow> k \<lparr>prev = pv, rest = c # cs, caps = g\<rparr>)
      else k \<lparr>prev = pv, rest = c # cs, caps = g\<rparr>)"

fun lazy :: "(char \<Rightarrow> bool) \<Rightarrow> (mstate \<Rightarrow> mstate option) \<Rightarrow> char option \<Rightarrow> string
               \<Rightarrow> (nat \<rightharpoonup> string) \<Rightarrow> mstate option" where
  "lazy p k pv [] g = k \<lparr>prev = pv, rest = [], caps = g\<rparr>"
| "lazy p k pv (c # cs) g =
     (case k \<lparr>prev = pv, rest = c # cs, caps = g\<rparr> of
        Some r \<Rightarrow> Some r
      | None \<Rightarrow> if p c then lazy p k (Some c) cs g else None)"

primrec mk :: "re \<Rightarrow> (mstate \<Rightarrow> mstate option) \<Rightarrow> mstate \<Rightarrow> mstate option" where
  "mk (Chr p) k st =
     (case rest st of [] \<Rightarrow> None
      | c # cs \<Rightarrow> if p c then k \<lparr>prev = Some c, rest = cs, caps = caps st\<rparr> else None)"
| "mk Eps k st = k st"
| "mk (Seq a b) k st = mk a (mk b k) st"
| "mk (Alt a b) k st = (case mk a k st of Some r \<Rightarrow> Some r | None \<Rightarrow> mk b k st)"
| "mk (Star p) k st = star p k (prev st) (rest st) (caps st)"
| "mk (Lazy p) k st = lazy p k (prev st) (rest st) (caps st)"
| "mk (Grp n a) k st =
     mk a (\<lambda>st'. k (st'\<lparr>caps := (caps st')(n \<mapsto>
              take (length (rest st) - length (rest st')) (rest st))\<rparr>)) st"
| "mk (Ahead a) k st =
     (case mk a Some st of None \<Rightarrow> None | Some st' \<Rightarrow> k (st\<lparr>caps := caps st'\<rparr>))"
| "mk Bol k st = (if prev st = None then k st else None)"
| "mk BolM k st = (if prev st = None \<or> prev st = Some (CHR 0x0A) then k st else None)"
| "mk Eol k st = (if rest st = [] \<or> rest st = [CHR 0x0A] then k st else None)"
| "mk EolM k st = (if rest st = [] \<or> hd (rest st) = CHR 0x0A then k st else None)"

text \<open>A match object: the text of the whole match (\<open>group(0)\<close>) and the captured groups.
  In every pattern of the parsers each capture group lies outside any alternative or option,
  so it takes part in every match (lemma \<open>groups_take_part\<close> below); \<open>group_text m n\<close> is
  its text.\<close>

record rmatch =
  m_text :: string
  m_caps :: "nat \<rightharpoonup> string"

definition group_text :: "rmatch \<Rightarrow> nat \<Rightarrow> string" where
  "group_text m n = (case m_caps m n of Some w \<Rightarrow> w | None \<Rightarrow> [])"

text \<open>One attempt at one position. With \<open>adv\<close> (the engine's \<open>must_advance\<close>) an empty
  match is refused, and the matcher backtracks.\<close>

definition attempt :: "re \<Rightarrow> bool \<Rightarrow> char option \<Rightarrow> string \<Rightarrow> rmatch option" where
  "attempt r adv pv s =
     (case mk r (\<lambda>st'. if adv \<and> length (rest st') = length s then None else Some st')
               \<lparr>prev = pv, rest = s, caps = Map.empty\<rparr> of
        None \<Rightarrow> None
      | Some st' \<Rightarrow> Some \<lparr>m_text = take (length s - length (rest st')) s, m_caps = caps st'\<rparr>)"

text \<open>\<open>re.match\<close> tries position 0 only; \<open>re.search\<close> tries every position from the left,
  the end of the text included.\<close>

definition re_match :: "re \<Rightarrow> string \<Rightarrow> rmatch option" where
  "re_match r s = attempt r False None s"

fun search_from :: "re \<Rightarrow> char option \<Rightarrow> string \<Rightarrow> rmatch option" where
  "search_from r pv [] = attempt r False pv []"
| "search_from r pv (c # cs) =
     (case attempt r False pv (c # cs) of
        Some m \<Rightarrow> Some m
      | None \<Rightarrow> search_from r (Some c) cs)"

definition re_search :: "re \<Rightarrow> string \<Rightarrow> rmatch option" where
  "re_search r s = search_from r None s"

text \<open>All matches from left to right, as \<open>re.split\<close>, \<open>re.sub\<close>, \<open>re.findall\<close> and
  \<open>re.finditer\<close> enumerate them, each with the text between the end of the match before it
  and its start, and the text after the last match. After an empty match the next search
  starts at the same position and must advance. \<open>here\<close> gives the matches that start at
  one position (an empty one, a non-empty one, or an empty one followed by a non-empty
  one) and the number of characters the last of them covers.\<close>

definition here :: "re \<Rightarrow> char option \<Rightarrow> string \<Rightarrow> rmatch list \<times> nat" where
  "here r pv s =
     (case attempt r False pv s of
        None \<Rightarrow> ([], 0)
      | Some m \<Rightarrow>
          if m_text m \<noteq> [] then ([m], length (m_text m))
          else (case attempt r True pv s of
                  None \<Rightarrow> ([m], 0)
                | Some m2 \<Rightarrow> ([m, m2], length (m_text m2))))"

definition with_gap :: "string \<Rightarrow> rmatch list \<Rightarrow> (string \<times> rmatch) list" where
  "with_gap gap ms = (case ms of [] \<Rightarrow> [] | m # ms' \<Rightarrow> (gap, m) # map (\<lambda>x. ([], x)) ms')"

definition followed_by ::
  "(string \<times> rmatch) list \<Rightarrow> (string \<times> rmatch) list \<times> string \<Rightarrow> (string \<times> rmatch) list \<times> string" where
  "followed_by xs res = (xs @ fst res, snd res)"

fun scan :: "re \<Rightarrow> char option \<Rightarrow> string \<Rightarrow> nat \<Rightarrow> string \<Rightarrow> (string \<times> rmatch) list \<times> string" where
  "scan r pv [] skip gap =
     (if skip = 0 \<and> fst (here r pv []) \<noteq> [] then (with_gap gap (fst (here r pv [])), [])
      else ([], gap))"
| "scan r pv (c # cs) (Suc n) gap = scan r (Some c) cs n gap"
| "scan r pv (c # cs) 0 gap =
     (case here r pv (c # cs) of
        ([], _) \<Rightarrow> scan r (Some c) cs 0 (gap @ [c])
      | (m # ms, 0) \<Rightarrow> followed_by (with_gap gap (m # ms)) (scan r (Some c) cs 0 [c])
      | (m # ms, Suc n) \<Rightarrow> followed_by (with_gap gap (m # ms)) (scan r (Some c) cs n []))"

definition re_scan :: "re \<Rightarrow> string \<Rightarrow> (string \<times> rmatch) list \<times> string" where
  "re_scan r s = scan r None s 0 []"

definition re_finditer :: "re \<Rightarrow> string \<Rightarrow> rmatch list" where
  "re_finditer r s = map snd (fst (re_scan r s))"

text \<open>\<open>re.split\<close> of a pattern with \<open>ng\<close> capture groups: the texts between the matches,
  each followed by the groups of the match after it, and the text after the last match.\<close>

definition re_split :: "re \<Rightarrow> nat \<Rightarrow> string \<Rightarrow> string list" where
  "re_split r ng s =
     concat (map (\<lambda>(gap, m). gap # map (group_text m) [1..<Suc ng]) (fst (re_scan r s)))
     @ [snd (re_scan r s)]"

definition re_sub :: "re \<Rightarrow> string \<Rightarrow> string \<Rightarrow> string" where
  "re_sub r repl s = concat (map (\<lambda>(gap, m). gap @ repl) (fst (re_scan r s))) @ snd (re_scan r s)"

subsection \<open>Writing patterns\<close>

definition lit :: "string \<Rightarrow> re" where
  "lit s = foldr (\<lambda>c r. Seq (Chr (\<lambda>x. x = c)) r) s Eps"

text \<open>A literal under \<open>re.IGNORECASE\<close>: each character matches its lower-case and its
  upper-case form.\<close>

definition same_as :: "char \<Rightarrow> char \<Rightarrow> char \<Rightarrow> bool" where
  "same_as lo up x = (x = lo \<or> x = up)"

definition liti :: "string \<Rightarrow> re" where
  "liti s = foldr (\<lambda>c r. Seq (Chr (same_as (lower_char c) (upper_char c))) r) s Eps"

definition seqs :: "re list \<Rightarrow> re" where
  "seqs rs = foldr Seq rs Eps"

definition alts :: "re list \<Rightarrow> re" where
  "alts rs = foldr Alt (butlast rs) (last rs)"

definition opt :: "re \<Rightarrow> re" where
  "opt r = Alt r Eps"

definition rep1 :: "(char \<Rightarrow> bool) \<Rightarrow> re" where
  "rep1 p = Seq (Chr p) (Star p)"

definition lazy_rep1 :: "(char \<Rightarrow> bool) \<Rightarrow> re" where
  "lazy_rep1 p = Seq (Chr p) (Lazy p)"

text \<open>\<open>x{n}\<close>, \<open>x{n,}\<close> and \<open>x{n,m}\<close> for a character class \<open>x\<close>.\<close>

definition rep_n :: "nat \<Rightarrow> (char \<Rightarrow> bool) \<Rightarrow> re" where
  "rep_n n p = seqs (replicate n (Chr p))"

definition rep_ge :: "nat \<Rightarrow> (char \<Rightarrow> bool) \<Rightarrow> re" where
  "rep_ge n p = Seq (rep_n n p) (Star p)"

primrec rep_upto :: "nat \<Rightarrow> (char \<Rightarrow> bool) \<Rightarrow> re" where
  "rep_upto 0 p = Eps"
| "rep_upto (Suc n) p = opt (Seq (Chr p) (rep_upto n p))"

definition rep_between :: "nat \<Rightarrow> nat \<Rightarrow> (char \<Rightarrow> bool) \<Rightarrow> re" where
  "rep_between n m p = Seq (rep_n n p) (rep_upto (m - n) p)"

definition dot :: "char \<Rightarrow> bool" where
  "dot c = (c \<noteq> CHR 0x0A)"

definition anyc :: "char \<Rightarrow> bool" where
  "anyc c = True"

text \<open>\<open>[A-Z]\<close> under \<open>re.IGNORECASE\<close>, and \<open>\w\<close>: letters, digits and the underscore, where
  the letters and digits above \<open>0x7F\<close> are \<open>0xAA\<close>, \<open>0xB2\<close>, \<open>0xB3\<close>, \<open>0xB5\<close>, \<open>0xB9\<close>,
  \<open>0xBA\<close>, \<open>0xBC\<close> to \<open>0xBE\<close>, and \<open>0xC0\<close> to \<open>0xFF\<close> without \<open>0xD7\<close> and \<open>0xF7\<close>.\<close>

definition ascii_letter :: "char \<Rightarrow> bool" where
  "ascii_letter c = (isupper_az c \<or> islower_az c)"

definition latin_word :: "char \<Rightarrow> bool" where
  "latin_word c =
     (digit7 c \<and>
      (c \<in> set [CHR 0xAA, CHR 0xB2, CHR 0xB3, CHR 0xB5, CHR 0xB9, CHR 0xBA,
                  CHR 0xBC, CHR 0xBD, CHR 0xBE]
       \<or> (digit6 c \<and> c \<noteq> CHR 0xD7 \<and> c \<noteq> CHR 0xF7)))"

definition wordc :: "char \<Rightarrow> bool" where
  "wordc c = (ascii_letter c \<or> re_digit c \<or> c = CHR ''_'' \<or> latin_word c)"

definition digit_or_dot :: "char \<Rightarrow> bool" where
  "digit_or_dot c = (re_digit c \<or> c = CHR ''.'')"

definition ch :: "char \<Rightarrow> re" where
  "ch c = Chr (\<lambda>x. x = c)"

text \<open>\<open>s.split(sep)\<close> at one separator character, and \<open>sep.join(xs)\<close>.\<close>

fun split_on :: "char \<Rightarrow> string \<Rightarrow> string \<Rightarrow> string list" where
  "split_on sep cur [] = [cur]"
| "split_on sep cur (c # cs) =
     (if c = sep then cur # split_on sep [] cs else split_on sep (cur @ [c]) cs)"

definition lines :: "string \<Rightarrow> string list" where
  "lines s = split_on (CHR 0x0A) [] s"

fun join :: "string \<Rightarrow> string list \<Rightarrow> string" where
  "join sep [] = []"
| "join sep [x] = x"
| "join sep (x # y # ys) = x @ sep @ join sep (y # ys)"


section \<open>Documents and result envelopes\<close>

text \<open>
  A document is the list of its pages. \<open>page.extract_text\<close> is called with several
  tolerance settings, and the text may differ from one setting to the other, so a page gives
  a text (or \<open>None\<close>) for each setting the parsers use. Opening the file may fail with an
  exception; the input of \<open>main\<close> is then the text of that exception.
\<close>

datatype tolerance = Default | X2 | X15 | X3Y3

type_synonym page = "tolerance \<Rightarrow> string option"

type_synonym pdf = "page list"

definition text_of :: "page \<Rightarrow> tolerance \<Rightarrow> string" where
  "text_of p t = (case p t of None \<Rightarrow> [] | Some s \<Rightarrow> s)"

record metadata =
  pun_code :: "string option"
  course_name :: string
  college_name :: string

datatype 's envelope =
    Envelope (college_info: metadata) (student_data: "'s list")
  | Failure (error: string)

definition success :: "'s envelope \<Rightarrow> bool" where
  "success e = (case e of Envelope md studs \<Rightarrow> True | Failure msg \<Rightarrow> False)"

section \<open>The SY pattern: metadata and subject map (parser\_sy.py)\<close>

definition pun_re :: re where
  "pun_re = seqs [liti ''Puncode'', Star isspace, ch CHR '':'', Star isspace,
                     Grp 1 (Seq (rep_n 4 ascii_letter) (rep_between 6 10 re_digit))]"

definition line_end :: re where
  "line_end = Ahead (Alt (ch CHR 0x0A) Eol)"

definition sy_course_re :: re where
  "sy_course_re =
     Seq (Grp 1 (seqs [Alt (liti ''BACHELOR'') (liti ''MASTER''), rep1 isspace, liti ''OF'',
                       rep1 isspace, Lazy anyc]))
         (Ahead (alts [seqs [Star isspace, ch CHR ''('',
                             Alt (liti ''REV'') (Seq (lit ''20'') (rep_n 2 re_digit))],
                       seqs [Star isspace, opt (ch CHR ''(''), rep_n 4 re_digit, Star isspace,
                             liti ''Pattern''],
                       liti ''College Ledger'',
                       lit [CHR 0x0A, CHR 0x0A],
                       Eol]))"

definition sy_college_re :: re where
  "sy_college_re = seqs [liti ''Puncode'', Star isspace, ch CHR '':'', Lazy dot, ch CHR '']'',
                         Star isspace, Grp 1 (Lazy dot), line_end]"

definition sy_college_fallback_re :: re where
  "sy_college_fallback_re =
     seqs [ch CHR ''['', rep_n 4 re_digit, ch CHR '']'', Star isspace,
           Grp 1 (seqs [Chr isupper_az,
                        rep1 (\<lambda>c. isupper_az c \<or> isspace c \<or> c = CHR '',''),
                        alts [lit ''COLLEGE'', lit ''INSTITUTE'', lit ''ARTS'', lit ''SCIENCE'',
                              lit ''COMMERCE''],
                        Lazy dot]),
           line_end]"

definition sy_default_metadata :: metadata where
  "sy_default_metadata =
     \<lparr>pun_code = Some ''Unknown'', course_name = ''Unknown'', college_name = ''Unknown''\<rparr>"

text \<open>\<open>extract_header_metadata(pdf)\<close> of parser\_sy.py. Nothing in its \<open>try\<close> can raise:
  the pages read are below \<open>len(pdf.pages)\<close>.\<close>

definition sy_extract_header_metadata :: "pdf \<Rightarrow> metadata" where
  "sy_extract_header_metadata pdf =
     (let header_text = concat (map (\<lambda>p. text_of p X2) (take 2 pdf)) in
      if header_text = [] then sy_default_metadata
      else
        let m1 = (case re_search pun_re header_text of
                    None \<Rightarrow> sy_default_metadata
                  | Some m \<Rightarrow> sy_default_metadata\<lparr>pun_code := Some (strip (group_text m 1))\<rparr>);
            m2 = (case re_search sy_course_re header_text of
                    None \<Rightarrow> m1
                  | Some m \<Rightarrow>
                      m1\<lparr>course_name := strip (re_sub (rep1 isspace) '' '' (group_text m 1))\<rparr>);
            m3 = (case re_search sy_college_re header_text of
                    None \<Rightarrow> m2
                  | Some m \<Rightarrow> m2\<lparr>college_name := rstrip_comma (strip (group_text m 1))\<rparr>)
        in if college_name m3 = ''Unknown'' \<or> college_name m3 = [] then
             (case re_search sy_college_fallback_re header_text of
                None \<Rightarrow> m3
              | Some m \<Rightarrow> m3\<lparr>college_name := rstrip_comma (strip (group_text m 1))\<rparr>)
           else m3)"

record backup =
  b_pun_code :: "string option"
  b_course_name :: "string option"
  b_college_name :: "string option"

definition map_pun_re :: re where
  "map_pun_re = seqs [liti ''Puncode'', Star isspace, ch CHR '':'', Star isspace,
                      Grp 1 (Seq (rep_n 4 ascii_letter) (rep1 re_digit))]"

definition map_coll_re :: re where
  "map_coll_re = seqs [ch CHR '']'', Star isspace, Grp 1 (Lazy dot), line_end]"

definition map_course_re :: re where
  "map_course_re =
     Seq (Grp 1 (seqs [Alt (liti ''BACHELOR'') (liti ''MASTER''), rep1 isspace, liti ''OF'',
                       rep1 isspace, Lazy dot]))
         (Ahead (alts [seqs [Star isspace, ch CHR ''('',
                             Alt (liti ''REV'') (Seq (lit ''20'') (rep_n 2 re_digit))],
                       seqs [Star isspace, liti ''Pattern''],
                       ch CHR 0x0A,
                       Eol]))"

definition map_row_re :: re where
  "map_row_re =
     seqs [Bol, Star isspace,
           Grp 1 (rep_between 3 10 (\<lambda>c. isupper_az c \<or> re_digit c \<or> c = CHR ''-'')),
           rep1 isspace, Grp 2 (rep1 dot), Eol]"

definition trailing_noise_re :: re where
  "trailing_noise_re =
     Seq (rep1 (\<lambda>c. c = CHR '':'' \<or> c = CHR ''-'' \<or> isspace c \<or> c = CHR ''!'')) Eol"

definition scan_backup :: "string \<Rightarrow> backup \<Rightarrow> backup" where
  "scan_backup line b =
     (let b1 = (if contains ''Puncode'' line then
                  (let b0 = (case re_search map_pun_re line of
                               None \<Rightarrow> b
                             | Some m \<Rightarrow> b\<lparr>b_pun_code := Some (strip (group_text m 1))\<rparr>)
                   in case re_search map_coll_re line of
                        None \<Rightarrow> b0
                      | Some m \<Rightarrow>
                          b0\<lparr>b_college_name := Some (rstrip_comma (strip (group_text m 1)))\<rparr>)
                else b)
      in if contains ''BACHELOR'' (upper line) \<or> contains ''MASTER'' (upper line) then
           (case re_search map_course_re line of
              None \<Rightarrow> b1
            | Some m \<Rightarrow> b1\<lparr>b_course_name := Some (strip (group_text m 1))\<rparr>)
         else b1)"

text \<open>The loop over the lines of one page; \<open>capture\<close> starts as \<open>False\<close> on every page,
  and the line with \<open>PRN:\<close> ends the loop.\<close>

fun map_lines :: "bool \<Rightarrow> (string \<rightharpoonup> string) \<times> backup \<Rightarrow> string list
                    \<Rightarrow> (string \<rightharpoonup> string) \<times> backup" where
  "map_lines capture acc [] = acc"
| "map_lines capture acc (line # ls) =
     (let mapping = fst acc; b = scan_backup line (snd acc) in
      if contains ''Paper List'' line then map_lines True (mapping, b) ls
      else if contains ''Semester:'' line then map_lines capture (mapping, b) ls
      else if contains ''PRN:'' line then (mapping, b)
      else if capture then
        (case re_match map_row_re (strip line) of
           None \<Rightarrow> map_lines capture (mapping, b) ls
         | Some m \<Rightarrow>
             map_lines capture
               (mapping(strip (group_text m 1) \<mapsto>
                          re_sub trailing_noise_re '''' (strip (group_text m 2))), b) ls)
      else map_lines capture (mapping, b) ls)"

definition sy_extract_subject_mapping :: "pdf \<Rightarrow> (string \<rightharpoonup> string) \<times> backup" where
  "sy_extract_subject_mapping pdf =
     foldl (\<lambda>acc p. case p Default of
                       None \<Rightarrow> acc
                     | Some t \<Rightarrow> if t = [] then acc else map_lines False acc (lines t))
           (Map.empty, \<lparr>b_pun_code = None, b_course_name = None, b_college_name = None\<rparr>)
           (take 5 pdf)"

section \<open>The SY pattern: student blocks and main (parser\_sy.py)\<close>

text \<open>The student dictionary. Its keys \<open>sem1_subjects\<close> \<dots> \<open>sem4_subjects\<close> and
  \<open>sem1_summary\<close> \<dots> \<open>sem4_summary\<close> are built from the digit after \<open>SEMESTER:\<close>, so the two
  families of keys are maps from that digit: appending to a subject list that does not
  exist raises \<open>KeyError\<close>, assigning a summary creates the key.\<close>

record sy_student =
  sy_sem_subjects :: "string \<rightharpoonup> subject list"
  sy_sem_summary :: "string \<rightharpoonup> string"
  sy_full_name :: string
  sy_seat_no :: string
  sy_prn :: string
  sy_mother_name :: string
  sy_result :: "string option"
  sy_fy_total_msg :: string
  sy_total_marks :: string
  sy_dashboard_sgpa :: string
  sy_course_name :: string

definition sy_new_student :: "metadata \<Rightarrow> sy_student" where
  "sy_new_student md =
     \<lparr>sy_sem_subjects = [''1'' \<mapsto> [], ''2'' \<mapsto> [], ''3'' \<mapsto> [], ''4'' \<mapsto> []],
      sy_sem_summary = [''1'' \<mapsto> '''', ''2'' \<mapsto> '''', ''3'' \<mapsto> '''', ''4'' \<mapsto> ''''],
      sy_full_name = ''Unknown'', sy_seat_no = ''-'', sy_prn = ''-'', sy_mother_name = ''-'',
      sy_result = None, sy_fy_total_msg = '''', sy_total_marks = ''-'',
      sy_dashboard_sgpa = ''-'', sy_course_name = course_name md\<rparr>"

definition split_prn_re :: re where
  "split_prn_re = Ahead (seqs [lit ''PRN:'', Star isspace, rep1 re_digit])"

definition local_coll_re :: re where
  "local_coll_re = seqs [liti ''Puncode'', Star isspace, ch CHR '':'', Lazy dot, rep1 re_digit,
                         ch CHR '']'', Star isspace, Grp 1 (Lazy dot), line_end]"

definition prn_re :: re where
  "prn_re = seqs [lit ''PRN:'', Star isspace, Grp 1 (rep1 re_digit)]"

definition seat_re :: re where
  "seat_re = seqs [lit ''SEAT NO.:'', Star isspace, Grp 1 (rep1 re_digit)]"

definition name_re :: re where
  "name_re = seqs [lit ''NAME:'', Star isspace, Grp 1 (Lazy dot),
                   Ahead (alts [Seq (rep1 isspace) (lit ''Mother''),
                                Seq (rep1 isspace) (lit ''PRN''), Eol])]"

definition mother_re :: re where
  "mother_re = seqs [lit ''Mother'', Star isspace, ch CHR ''-'', Star isspace,
                     Grp 1 (rep1 wordc)]"

definition result_re :: re where
  "result_re = seqs [liti ''Second Year Result'', Star isspace, ch CHR '':'', Star isspace,
                     Grp 1 (Lazy dot),
                     Ahead (Alt (Seq (rep1 isspace) (liti ''Total'')) (ch CHR 0x0A))]"

definition cred_re :: re where
  "cred_re = Grp 1 (seqs [lit ''Total Credits Earned'', Star isspace, ch CHR '':'', Star isspace,
                          rep1 (\<lambda>c. re_digit c \<or> c = CHR ''/'')])"

definition sem_split_re :: re where
  "sem_split_re = Grp 1 (seqs [lit ''SEMESTER:'', Star isspace, Chr re_digit])"

definition sem_head_re :: re where
  "sem_head_re = seqs [lit ''SEMESTER:'', Star isspace, Grp 1 (Chr re_digit)]"

definition page_re :: re where
  "page_re = seqs [lit ''Page'', Star isspace, rep1 re_digit]"

definition sgpa_re :: "string \<Rightarrow> re" where
  "sgpa_re label = seqs [liti (label @ '' Semester SGPA''), Star isspace, ch CHR '':'',
                         Star isspace, Grp 1 (rep1 digit_or_dot)]"

definition merge_backup :: "metadata \<Rightarrow> backup \<Rightarrow> metadata" where
  "merge_backup md b =
     (let m1 = (if pun_code md = Some ''Unknown'' \<and> b_pun_code b \<noteq> None
                   \<and> b_pun_code b \<noteq> Some ''Unknown''
                then md\<lparr>pun_code := b_pun_code b\<rparr> else md);
          m2 = (case b_course_name b of
                  None \<Rightarrow> m1
                | Some v \<Rightarrow> if course_name m1 = ''Unknown'' \<and> v \<noteq> ''Unknown''
                            then m1\<lparr>course_name := v\<rparr> else m1)
      in case b_college_name b of
           None \<Rightarrow> m2
         | Some v \<Rightarrow> if college_name m2 = ''Unknown'' \<and> v \<noteq> ''Unknown''
                     then m2\<lparr>college_name := v\<rparr> else m2)"

definition sy_block_metadata :: "metadata \<Rightarrow> string \<Rightarrow> metadata" where
  "sy_block_metadata md block =
     (if college_name md = ''Unknown'' then
        (case re_search local_coll_re block of
           None \<Rightarrow> md
         | Some m \<Rightarrow> md\<lparr>college_name := strip (group_text m 1)\<rparr>)
      else md)"

text \<open>Phases 4 to 6: profile, explicit result, earned credits.\<close>

definition sy_profile :: "string \<Rightarrow> sy_student \<Rightarrow> sy_student" where
  "sy_profile block st =
     (let s1 = (case re_search prn_re block of None \<Rightarrow> st
                | Some m \<Rightarrow> st\<lparr>sy_prn := group_text m 1\<rparr>);
          s2 = (case re_search seat_re block of None \<Rightarrow> s1
                | Some m \<Rightarrow> s1\<lparr>sy_seat_no := group_text m 1\<rparr>);
          s3 = (case re_search name_re block of None \<Rightarrow> s2
                | Some m \<Rightarrow> s2\<lparr>sy_full_name := strip (group_text m 1)\<rparr>);
          s4 = (case re_search mother_re block of None \<Rightarrow> s3
                | Some m \<Rightarrow> s3\<lparr>sy_mother_name := group_text m 1\<rparr>);
          s5 = (case re_search result_re block of None \<Rightarrow> s4
                | Some m \<Rightarrow> s4\<lparr>sy_result := Some (upper (strip (group_text m 1)))\<rparr>)
      in case re_search cred_re block of None \<Rightarrow> s5
         | Some m \<Rightarrow> s5\<lparr>sy_fy_total_msg := group_text m 1\<rparr>)"

text \<open>Phase 7: the rows and the summary line of each semester.\<close>

fun sy_rows :: "(string \<rightharpoonup> string) \<Rightarrow> string \<Rightarrow> sy_student \<Rightarrow> string list
                  \<Rightarrow> py_error + sy_student" where
  "sy_rows subject_map sem st [] = Inr st"
| "sy_rows subject_map sem st (line # ls) =
     bind_err
       (case parse_marks_row line subject_map of
          None \<Rightarrow> Inr st
        | Some row \<Rightarrow>
            (case sy_sem_subjects st sem of
               None \<Rightarrow> Inl KeyError
             | Some rows \<Rightarrow> Inr (st\<lparr>sy_sem_subjects := (sy_sem_subjects st)(sem \<mapsto> rows @ [row])\<rparr>)))
       (\<lambda>st1. sy_rows subject_map sem
                 (if contains ''SGPA'' line
                  then st1\<lparr>sy_sem_summary :=
                             (sy_sem_summary st1)(sem \<mapsto> strip (re_sub page_re '''' line))\<rparr>
                  else st1) ls)"

fun sy_parts :: "(string \<rightharpoonup> string) \<Rightarrow> string option \<Rightarrow> sy_student \<Rightarrow> string list
                   \<Rightarrow> py_error + sy_student" where
  "sy_parts subject_map current_sem st [] = Inr st"
| "sy_parts subject_map current_sem st (part # ps) =
     (case re_match sem_head_re (strip part) of
        Some m \<Rightarrow> sy_parts subject_map (Some (group_text m 1)) st ps
      | None \<Rightarrow>
          (case current_sem of
             None \<Rightarrow> sy_parts subject_map current_sem st ps
           | Some sem \<Rightarrow>
               if sem = [] then sy_parts subject_map current_sem st ps
               else bind_err (sy_rows subject_map sem st (lines part))
                      (\<lambda>st1. sy_parts subject_map current_sem st1 ps)))"

text \<open>Phase 8: the result inferred from the grades when the block states none.\<close>

definition sy_all_grades :: "sy_student \<Rightarrow> string list" where
  "sy_all_grades st =
     concat (map (\<lambda>sem. case sy_sem_subjects st sem of None \<Rightarrow> [] | Some rows \<Rightarrow> map grd rows)
                 [''1'', ''2'', ''3'', ''4''])"

definition sy_fail_grades :: "string list" where
  "sy_fail_grades = [''F'', ''FFF'', ''FAIL'', ''AB'', ''Absent'']"

definition sy_infer_result :: "sy_student \<Rightarrow> sy_student" where
  "sy_infer_result st =
     (case sy_result st of
        Some r \<Rightarrow> st
      | None \<Rightarrow>
          if list_ex (\<lambda>g. g \<in> set sy_fail_grades) (sy_all_grades st)
          then st\<lparr>sy_result := Some ''FAIL''\<rparr>
          else st\<lparr>sy_result := Some ''PASS''\<rparr>)"

text \<open>Phase 9: the SGPA shown on the dashboard, from semester 4 down to semester 1.\<close>

fun first_sgpa :: "string list \<Rightarrow> string \<Rightarrow> string" where
  "first_sgpa [] block = ''-''"
| "first_sgpa (label # ls) block =
     (case re_search (sgpa_re label) block of
        Some m \<Rightarrow> group_text m 1
      | None \<Rightarrow> first_sgpa ls block)"

definition str_result :: "string option \<Rightarrow> string" where
  "str_result r = (case r of None \<Rightarrow> ''None'' | Some s \<Rightarrow> s)"

definition sy_current_sgpa :: "sy_student \<Rightarrow> string \<Rightarrow> string" where
  "sy_current_sgpa st block =
     (if contains ''PASS'' (upper (str_result (sy_result st)))
      then first_sgpa [''Fourth'', ''Third'', ''Second'', ''First''] block
      else ''-'')"

text \<open>The body of the \<open>try\<close> for one block, up to the test that appends the student.\<close>

definition sy_block_body :: "(string \<rightharpoonup> string) \<Rightarrow> metadata \<Rightarrow> string \<Rightarrow> py_error + sy_student" where
  "sy_block_body subject_map md block =
     bind_err (sy_parts subject_map None (sy_profile block (sy_new_student md))
                 (re_split sem_split_re 1 block))
       (\<lambda>st. let st1 = sy_infer_result st; current_sgpa = sy_current_sgpa st1 block
              in Inr (st1\<lparr>sy_dashboard_sgpa := current_sgpa, sy_total_marks := current_sgpa\<rparr>))"

fun sy_blocks :: "(string \<rightharpoonup> string) \<Rightarrow> metadata \<times> sy_student list \<Rightarrow> string list
                    \<Rightarrow> metadata \<times> sy_student list" where
  "sy_blocks subject_map acc [] = acc"
| "sy_blocks subject_map acc (block # bs) =
     (if \<not> contains ''SEMESTER'' block then sy_blocks subject_map acc bs
      else
        let md = sy_block_metadata (fst acc) block in
        case sy_block_body subject_map md block of
          Inl e \<Rightarrow> sy_blocks subject_map (md, snd acc) bs
        | Inr st \<Rightarrow>
            if sy_prn st \<noteq> ''-'' then sy_blocks subject_map (md, snd acc @ [st]) bs
            else sy_blocks subject_map (md, snd acc) bs)"

definition sy_main :: "string + pdf \<Rightarrow> sy_student envelope" where
  "sy_main doc =
     (case doc of
        Inl e \<Rightarrow> Failure (''SY Parser Critical Failure: '' @ e)
      | Inr pdf \<Rightarrow>
          let sm = sy_extract_subject_mapping pdf;
              metadata = merge_backup (sy_extract_header_metadata pdf) (snd sm);
              full_text = join [CHR 0x0A] (map (\<lambda>p. text_of p X2) pdf);
              res = sy_blocks (fst sm) (metadata, []) (re_split split_prn_re 0 full_text)
          in Envelope (fst res) (snd res))"


section \<open>The NEP pattern (parser\_nep.py)\<close>

definition nep_course_re :: re where
  "nep_course_re = seqs [lit ''PUNE-'', rep_n 3 re_digit, Star isspace, rep_n 3 re_digit,
                         Star isspace, ch CHR 0x0A, Grp 1 (Lazy anyc), ch CHR 0x0A,
                         lit ''College Ledger'']"

definition nep_course_fallback_re :: re where
  "nep_course_fallback_re =
     seqs [Grp 1 (Alt (liti ''BACHELOR'') (liti ''MASTER'')), rep1 isspace, liti ''OF'',
           rep1 isspace, Lazy dot, Ahead (ch CHR 0x0A)]"

definition nep_college_re :: re where
  "nep_college_re = seqs [ch CHR ''['', rep_n 4 re_digit, ch CHR '']'', Star isspace,
                          Grp 1 (Lazy dot), Ahead (Alt (ch CHR 0x0A) (ch CHR ''[''))]"

definition nep_default_metadata :: metadata where
  "nep_default_metadata =
     \<lparr>pun_code = Some ''Unknown'', course_name = ''Unknown'', college_name = ''Unknown''\<rparr>"

text \<open>The body of the \<open>try\<close> of \<open>extract_header_metadata(pdf)\<close>: \<open>pdf.pages[0]\<close> raises
  \<open>IndexError\<close> on a document without pages, before any field is set.\<close>

definition nep_header_body :: "pdf \<Rightarrow> py_error + metadata" where
  "nep_header_body pdf =
     bind_err (py_index pdf 0) (\<lambda>p.
       case p Default of
         None \<Rightarrow> Inr nep_default_metadata
       | Some first_page_text \<Rightarrow>
           if first_page_text = [] then Inr nep_default_metadata
           else
             let m1 = (case re_search pun_re first_page_text of
                         None \<Rightarrow> nep_default_metadata
                       | Some m \<Rightarrow>
                           nep_default_metadata\<lparr>pun_code := Some (strip (group_text m 1))\<rparr>);
                 m2 = (case re_search nep_course_re first_page_text of
                         Some m \<Rightarrow> m1\<lparr>course_name := strip (group_text m 1)\<rparr>
                       | None \<Rightarrow>
                           (case re_search nep_course_fallback_re first_page_text of
                              None \<Rightarrow> m1
                            | Some m \<Rightarrow> m1\<lparr>course_name := strip (m_text m)\<rparr>))
             in Inr (case re_search nep_college_re first_page_text of
                       None \<Rightarrow> m2
                     | Some m \<Rightarrow> m2\<lparr>college_name := strip (group_text m 1)\<rparr>))"

definition nep_extract_header_metadata :: "pdf \<Rightarrow> metadata" where
  "nep_extract_header_metadata pdf =
     (case nep_header_body pdf of Inl e \<Rightarrow> nep_default_metadata | Inr md \<Rightarrow> md)"

text \<open>\<open>text[:text.find(sub)]\<close>: the text before the first occurrence of \<open>sub\<close>, \<open>None\<close> when
  \<open>find\<close> returns \<open>-1\<close>.\<close>

fun before_first :: "string \<Rightarrow> string \<Rightarrow> string \<Rightarrow> string option" where
  "before_first sub seen [] = (if sub = [] then Some seen else None)"
| "before_first sub seen (c # cs) =
     (if prefix sub (c # cs) then Some seen else before_first sub (seen @ [c]) cs)"

definition nep_map_row_re :: re where
  "nep_map_row_re =
     seqs [BolM, Grp 1 (rep_between 3 15 (\<lambda>c. isupper_az c \<or> re_digit c \<or> c = CHR ''-'')),
           rep1 isspace, Grp 2 (Seq (Chr ascii_letter) (Star dot))]"

definition leading_noise_re :: re where
  "leading_noise_re =
     Seq Bol (rep1 (\<lambda>c. c = CHR '':'' \<or> c = CHR ''-'' \<or> isspace c \<or> c = CHR ''!''))"

definition nep_add_rows :: "(string \<rightharpoonup> string) \<Rightarrow> rmatch list \<Rightarrow> (string \<rightharpoonup> string)" where
  "nep_add_rows mapping rows =
     foldl (\<lambda>mp m. if length (strip (group_text m 1)) \<ge> 3
                    then mp(strip (group_text m 1) \<mapsto>
                              strip (re_sub leading_noise_re '''' (group_text m 2)))
                    else mp)
           mapping rows"

fun nep_map_pages :: "(string \<rightharpoonup> string) \<Rightarrow> pdf \<Rightarrow> (string \<rightharpoonup> string)" where
  "nep_map_pages mapping [] = mapping"
| "nep_map_pages mapping (p # ps) =
     (case p Default of
        None \<Rightarrow> nep_map_pages mapping ps
      | Some t \<Rightarrow>
          if t = [] then nep_map_pages mapping ps
          else (case before_first ''PRN:'' [] t of
                  None \<Rightarrow> nep_map_pages (nep_add_rows mapping (re_finditer nep_map_row_re t)) ps
                | Some mapping_area \<Rightarrow>
                    nep_add_rows mapping (re_finditer nep_map_row_re mapping_area)))"

definition nep_extract_subject_mapping :: "pdf \<Rightarrow> (string \<rightharpoonup> string)" where
  "nep_extract_subject_mapping pdf = nep_map_pages Map.empty pdf"

record nep_student =
  nep_prn :: string
  nep_seat_no :: string
  nep_full_name :: string
  nep_mother_name :: string
  nep_gender :: string
  nep_sem1_subjects :: "subject list"
  nep_sem2_subjects :: "subject list"
  nep_sem1_summary :: string
  nep_sem2_summary :: string
  nep_dashboard_sgpa :: string
  nep_fy_total_msg :: string
  nep_result :: string
  nep_cgpa :: string
  nep_final_grade :: string
  nep_total_marks :: string
  nep_course_name :: "string option"

definition nep_prn_re :: re where
  "nep_prn_re = seqs [lit ''PRN'', opt (ch CHR '':''), Star isspace, Grp 1 (rep1 re_digit)]"

definition nep_seat_re :: re where
  "nep_seat_re = seqs [lit ''SEAT NO.'', opt (ch CHR '':''), Star isspace, Grp 1 (rep1 re_digit)]"

definition nep_name_re :: re where
  "nep_name_re = seqs [lit ''NAME'', opt (ch CHR '':''), Star isspace, Grp 1 (Lazy anyc),
                       Ahead (alts [lit ''Mother'', ch CHR ''-'', lit ''PRN'', Eol])]"

definition nep_mother_re :: re where
  "nep_mother_re = seqs [lit ''Mother'', Star isspace, opt (ch CHR ''-''), Star isspace,
                         Grp 1 (rep1 wordc)]"

definition nep_sem_split_re :: re where
  "nep_sem_split_re = seqs [liti ''Semester'', Star isspace, ch CHR '':'', Star isspace]"

definition s1_sum_re :: re where
  "s1_sum_re = Seq (Grp 1 (seqs [lit ''First Semester SGPA'', Star isspace, ch CHR '':'',
                                 Star isspace, Lazy anyc]))
                   (Ahead (alts [ch CHR 0x0A, lit ''Second Semester'', Eol]))"

definition s2_sum_re :: re where
  "s2_sum_re = Seq (Grp 1 (seqs [lit ''Second Semester SGPA'', Star isspace, ch CHR '':'',
                                 Star isspace, Lazy anyc]))
                   (Ahead (alts [ch CHR 0x0A, lit ''First Year'', Eol]))"

definition s1_val_re :: re where
  "s1_val_re = seqs [lit ''First Semester SGPA'', Star isspace, ch CHR '':'', Star isspace,
                     Grp 1 (rep1 digit_or_dot)]"

definition s2_val_re :: re where
  "s2_val_re = seqs [lit ''Second Semester SGPA'', Star isspace, ch CHR '':'', Star isspace,
                     Grp 1 (rep1 digit_or_dot)]"

definition fy_res_re :: re where
  "fy_res_re = Seq (Grp 1 (seqs [lit ''First Year '',
                                 Alt (lit ''Result'') (lit ''Total Credits Earned''),
                                 Star isspace, ch CHR '':'', Star isspace, Lazy dot]))
                   line_end"

definition tcp_re :: re where
  "tcp_re = seqs [lit ''Total Credit Points:'', Star isspace, Grp 1 (rep1 digit_or_dot)]"

definition nep_split_re :: re where
  "nep_split_re = Ahead (Seq (lit ''PRN'') (Chr (\<lambda>c. c = CHR '':'' \<or> isspace c)))"

text \<open>The loop over the marks of one row: a symbol \<open>P\<close>, \<open>*\<close> or \<open>AA\<close> is joined to the
  token after it.\<close>

fun nep_merge :: "string list \<Rightarrow> string list" where
  "nep_merge [] = []"
| "nep_merge [t] = [t]"
| "nep_merge (t # n # ts) =
     (if t \<in> set [''P'', ''*'', ''AA''] then (t @ '' '' @ n) # nep_merge ts
      else t # nep_merge (n # ts))"

text \<open>The prefix and the value of one processed mark: \<open>m[0] if len(m) > 1 else "-"\<close> and
  \<open>m[-1]\<close> for \<open>m = field.split()\<close>; \<open>m[-1]\<close> raises \<open>IndexError\<close> on an empty \<open>m\<close>.\<close>

definition nep_mark :: "string \<Rightarrow> py_error + string \<times> string" where
  "nep_mark field =
     (let m = split field in
      bind_err (py_index m (-1)) (\<lambda>v. Inr (if length m > 1 then hd m else ''-'', v)))"

text \<open>One line of a semester part. A line of at least 8 tokens whose first token, cleaned,
  has at least 3 characters is a subject row: its grade \<open>parts[-3]\<close> is appended to
  \<open>all_grades\<close>, then the record is built. An \<open>IndexError\<close> while the record is built is
  caught by the inner \<open>try\<close>, and the line gives no record.\<close>

definition nep_code_clean :: "string list \<Rightarrow> string" where
  "nep_code_clean parts =
     filter (\<lambda>c. isupper_az c \<or> re_digit c \<or> c = CHR ''-'')
            (replace '':'' '''' (strip (hd parts)))"

definition nep_line_grade :: "string \<Rightarrow> string option" where
  "nep_line_grade line =
     (let parts = split line in
      if length parts \<ge> 8 \<and> length (nep_code_clean parts) \<ge> 3 then
        (case py_index parts (-3) of Inl e \<Rightarrow> None | Inr grade \<Rightarrow> Some grade)
      else None)"

definition nep_row_body :: "(string \<rightharpoonup> string) \<Rightarrow> string list \<Rightarrow> py_error + subject option" where
  "nep_row_body subject_map parts =
     (let code_clean = nep_code_clean parts
      in if length code_clean \<ge> 3 then
           bind_err (py_index parts (-3)) (\<lambda>grade.
           bind_err (py_index parts (-6)) (\<lambda>total_v.
           bind_err (py_index parts (-5)) (\<lambda>crd_v.
           bind_err (py_index parts (-4)) (\<lambda>ern_v.
           bind_err (py_index parts (-2)) (\<lambda>gp_v.
           bind_err (py_index parts (-1)) (\<lambda>cp_v.
           let record0 = \<lparr>code = code_clean,
                          name = (case subject_map code_clean of None \<Rightarrow> ''---'' | Some n \<Rightarrow> n),
                          p_int = ''-'', int_m = ''-'', p_ext = ''-'', ext_m = ''-'',
                          p_pr = ''-'', pr_m = ''-'',
                          total = total_v, crd = crd_v, ern = ern_v, grd = grade,
                          gp = gp_v, cp = cp_v\<rparr>;
               processed = nep_merge (py_slice parts 1 (-6))
           in
           bind_err (if length processed \<ge> 1
                     then bind_err (nep_mark (processed ! 0))
                            (\<lambda>pv. Inr (record0\<lparr>p_int := fst pv, int_m := snd pv\<rparr>))
                     else Inr record0) (\<lambda>record1.
           bind_err (if length processed \<ge> 2
                     then bind_err (nep_mark (processed ! 1))
                            (\<lambda>pv. Inr (record1\<lparr>p_ext := fst pv, ext_m := snd pv\<rparr>))
                     else Inr record1) (\<lambda>record2.
           bind_err (if length processed \<ge> 3
                     then bind_err (nep_mark (processed ! 2))
                            (\<lambda>pv. Inr (record2\<lparr>p_pr := fst pv, pr_m := snd pv\<rparr>))
                     else Inr record2) (\<lambda>record3.
           Inr (Some record3))))))))))
         else Inr None)"

definition nep_row :: "(string \<rightharpoonup> string) \<Rightarrow> string \<Rightarrow> subject option" where
  "nep_row subject_map line =
     (let parts = split line in
      if length parts \<ge> 8 then
        (case nep_row_body subject_map parts of Inl e \<Rightarrow> None | Inr r \<Rightarrow> r)
      else None)"

definition nep_part_rows :: "(string \<rightharpoonup> string) \<Rightarrow> string \<Rightarrow> subject list" where
  "nep_part_rows subject_map part = List.map_filter (nep_row subject_map) (lines part)"

text \<open>\<open>enumerate(sem_parts[1:], 1)\<close>: the rows of the first part go to \<open>sem1_subjects\<close>, the
  rows of every later part to \<open>sem2_subjects\<close>; the grades of all parts go to
  \<open>all_grades\<close>.\<close>

definition nep_sem1_rows :: "(string \<rightharpoonup> string) \<Rightarrow> string list \<Rightarrow> subject list" where
  "nep_sem1_rows subject_map sem_parts =
     (case tl sem_parts of [] \<Rightarrow> [] | part # ps \<Rightarrow> nep_part_rows subject_map part)"

definition nep_sem2_rows :: "(string \<rightharpoonup> string) \<Rightarrow> string list \<Rightarrow> subject list" where
  "nep_sem2_rows subject_map sem_parts =
     (case tl sem_parts of [] \<Rightarrow> []
      | part # ps \<Rightarrow> concat (map (nep_part_rows subject_map) ps))"

definition nep_all_grades :: "string list \<Rightarrow> string list" where
  "nep_all_grades sem_parts =
     concat (map (\<lambda>part. List.map_filter nep_line_grade (lines part)) (tl sem_parts))"

definition nep_fail_grades :: "string list" where
  "nep_fail_grades = [''F'', ''FFF'', ''FAIL'']"

definition nep_resolve_result :: "string \<Rightarrow> string list \<Rightarrow> string" where
  "nep_resolve_result fy_text all_grades =
     (let fail_exists = list_ex (\<lambda>g. g \<in> set nep_fail_grades) all_grades in
      if contains ''44/44'' fy_text \<or> (\<not> fail_exists \<and> length all_grades > 0) then ''PASS''
      else if contains ''A.T.K.T'' fy_text then ''FAIL A.T.K.T.''
      else ''FAIL'')"

definition nep_dashboard :: "string \<Rightarrow> string" where
  "nep_dashboard block_text =
     (case re_search s2_val_re block_text of
        Some m \<Rightarrow> group_text m 1
      | None \<Rightarrow>
          (case re_search s1_val_re block_text of
             Some m \<Rightarrow> group_text m 1
           | None \<Rightarrow> ''-''))"

definition nep_fy_text :: "string \<Rightarrow> string" where
  "nep_fy_text block_text =
     (case re_search fy_res_re block_text of None \<Rightarrow> [] | Some m \<Rightarrow> upper (group_text m 1))"

text \<open>\<open>parse_nep_block(block_text, subject_map)\<close>. After the test of the two identity
  patterns no step of it can raise.\<close>

definition parse_nep_block :: "string \<Rightarrow> (string \<rightharpoonup> string) \<Rightarrow> nep_student option" where
  "parse_nep_block block_text subject_map =
     (case re_search nep_prn_re block_text of
        None \<Rightarrow> None
      | Some prn_match \<Rightarrow>
         (case re_search nep_seat_re block_text of
            None \<Rightarrow> None
          | Some seat_match \<Rightarrow>
             let sem_parts = re_split nep_sem_split_re 0 block_text;
                 sem1 = nep_sem1_rows subject_map sem_parts;
                 sem2 = nep_sem2_rows subject_map sem_parts;
                 all_grades = nep_all_grades sem_parts;
                 fy_text = nep_fy_text block_text
             in Some
               \<lparr>nep_prn = strip (group_text prn_match 1),
                nep_seat_no = strip (group_text seat_match 1),
                nep_full_name = (case re_search nep_name_re block_text of
                                   None \<Rightarrow> ''Unknown''
                                 | Some m \<Rightarrow> hd (lines (strip (group_text m 1)))),
                nep_mother_name = (case re_search nep_mother_re block_text of
                                     None \<Rightarrow> ''-''
                                   | Some m \<Rightarrow> strip (group_text m 1)),
                nep_gender = (if contains ''SEX: M'' block_text \<or> contains '' M '' block_text
                              then ''Male'' else ''Unknown''),
                nep_sem1_subjects = sem1,
                nep_sem2_subjects = sem2,
                nep_sem1_summary = (case re_search s1_sum_re block_text of
                                      None \<Rightarrow> []
                                    | Some m \<Rightarrow> strip (replace [CHR 0x0A] '' '' (group_text m 1))),
                nep_sem2_summary = (case re_search s2_sum_re block_text of
                                      None \<Rightarrow> []
                                    | Some m \<Rightarrow> strip (replace [CHR 0x0A] '' '' (group_text m 1))),
                nep_dashboard_sgpa = nep_dashboard block_text,
                nep_fy_total_msg = fy_text,
                nep_result = nep_resolve_result fy_text all_grades,
                nep_cgpa = ''-'',
                nep_final_grade = ''-'',
                nep_total_marks = (case re_search tcp_re block_text of
                                     None \<Rightarrow> ''-'' | Some m \<Rightarrow> group_text m 1),
                nep_course_name = None\<rparr>))"

fun nep_blocks :: "(string \<rightharpoonup> string) \<Rightarrow> metadata \<Rightarrow> nep_student list \<Rightarrow> string list
                     \<Rightarrow> nep_student list" where
  "nep_blocks subject_map md all_students [] = all_students"
| "nep_blocks subject_map md all_students (b # bs) =
     (if contains ''SEMESTER'' (upper b) then
        (case parse_nep_block b subject_map of
           None \<Rightarrow> nep_blocks subject_map md all_students bs
         | Some res \<Rightarrow>
             nep_blocks subject_map md
               (all_students @ [res\<lparr>nep_course_name := Some (course_name md)\<rparr>]) bs)
      else nep_blocks subject_map md all_students bs)"

fun nep_pages :: "(string \<rightharpoonup> string) \<Rightarrow> metadata \<Rightarrow> nep_student list \<Rightarrow> pdf
                    \<Rightarrow> nep_student list" where
  "nep_pages subject_map md all_students [] = all_students"
| "nep_pages subject_map md all_students (p # ps) =
     (case p X15 of
        None \<Rightarrow> nep_pages subject_map md all_students ps
      | Some t \<Rightarrow>
          if t = [] then nep_pages subject_map md all_students ps
          else nep_pages subject_map md
                 (nep_blocks subject_map md all_students (re_split nep_split_re 0 t)) ps)"

definition nep_main :: "string + pdf \<Rightarrow> nep_student envelope" where
  "nep_main doc =
     (case doc of
        Inl e \<Rightarrow> Failure (''NEP Parser Global Error: '' @ e)
      | Inr pdf \<Rightarrow>
          let subject_map = nep_extract_subject_mapping pdf;
              metadata = nep_extract_header_metadata pdf;
              all_students = nep_pages subject_map metadata [] pdf
          in if all_students \<noteq> [] then Envelope metadata all_students
             else Failure ''No valid NEP student records found.'')"


section \<open>The Gazette pattern (parser.py)\<close>

definition gz_course_re :: re where
  "gz_course_re = seqs [liti ''RESULT'', rep1 isspace, liti ''OF'', rep1 isspace, liti ''THE'',
                        rep1 isspace, Grp 1 (Lazy dot),
                        Ahead (Alt (Seq (rep1 isspace) (liti ''EXAMINATION'')) Eol)]"

definition gz_course_fallback_re :: re where
  "gz_course_fallback_re =
     Seq (Grp 1 (seqs [Alt (liti ''BACHELOR'') (liti ''MASTER''), rep1 isspace, liti ''OF'',
                       rep1 isspace, Lazy dot]))
         (Ahead (alts [Seq (Star isspace) (ch CHR ''(''),
                       Seq (lit ''20'') (rep_n 2 re_digit),
                       Eol]))"

definition gz_college_re :: re where
  "gz_college_re =
     seqs [BolM, rep_between 3 4 re_digit, rep1 isspace, Grp 1 (Lazy dot),
           Ahead (Alt (seqs [rep1 isspace, liti ''PAGE'', Star isspace, ch CHR '':'']) EolM)]"

definition gz_college_fallback_re :: re where
  "gz_college_fallback_re =
     seqs [alts [liti ''PANCHAVATI'', liti ''COLLEGE'', liti ''INSTITUTE''], Lazy dot,
           Ahead (Alt (seqs [rep1 isspace, liti ''PAGE'', Star isspace, ch CHR '':'']) Eol)]"

definition gz_default_metadata :: metadata where
  "gz_default_metadata =
     \<lparr>pun_code = None, course_name = ''Unknown'', college_name = ''Unknown''\<rparr>"

text \<open>The body of the \<open>try\<close> of \<open>extract_header_metadata(pdf)\<close> of parser.py; \<open>pdf.pages[0]\<close>
  raises \<open>IndexError\<close> on a document without pages.\<close>

definition gz_header_body :: "pdf \<Rightarrow> py_error + metadata" where
  "gz_header_body pdf =
     bind_err (py_index pdf 0) (\<lambda>p.
       case p X2 of
         None \<Rightarrow> Inr gz_default_metadata
       | Some first_page_text \<Rightarrow>
           if first_page_text = [] then Inr gz_default_metadata
           else
             let m1 = (case re_search gz_course_re first_page_text of
                         Some m \<Rightarrow> gz_default_metadata\<lparr>course_name := strip (group_text m 1)\<rparr>
                       | None \<Rightarrow>
                           (case re_search gz_course_fallback_re first_page_text of
                              None \<Rightarrow> gz_default_metadata
                            | Some m \<Rightarrow>
                                gz_default_metadata\<lparr>course_name := strip (group_text m 1)\<rparr>))
             in Inr (case re_search gz_college_re first_page_text of
                       Some m \<Rightarrow> m1\<lparr>college_name := strip (group_text m 1)\<rparr>
                     | None \<Rightarrow>
                         (case re_search gz_college_fallback_re first_page_text of
                            None \<Rightarrow> m1
                          | Some m \<Rightarrow> m1\<lparr>college_name := strip (m_text m)\<rparr>)))"

definition gz_extract_header_metadata :: "pdf \<Rightarrow> metadata" where
  "gz_extract_header_metadata pdf =
     (case gz_header_body pdf of Inl e \<Rightarrow> gz_default_metadata | Inr md \<Rightarrow> md)"

record gz_subject =
  gz_code :: string
  gz_internal :: string
  gz_external :: string
  gz_total :: string
  gz_grade :: string
  gz_credits :: string

record gz_student =
  gz_seat_no :: string
  gz_prn :: string
  gz_gender :: string
  gz_mother_name :: string
  gz_full_name :: string
  gz_subjects :: "gz_subject list"
  gz_sgpa :: "string \<rightharpoonup> string"
  gz_total_credits :: string
  gz_total_marks :: string
  gz_fy_credits :: string
  gz_fy_marks :: string
  gz_cgpa :: string
  gz_final_grade :: string
  gz_result :: string
  gz_extra_notes :: "string list"

definition info_re :: re where
  "info_re = seqs [Grp 1 (rep_ge 4 re_digit), rep1 isspace, Grp 2 (lazy_rep1 dot), rep1 isspace,
                   Grp 3 (Chr (\<lambda>c. c = CHR ''M'' \<or> c = CHR ''F'')), rep1 isspace,
                   Grp 4 (rep_ge 10 re_digit)]"

definition subject_re :: re where
  "subject_re =
     seqs [Grp 1 (rep_n 5 re_digit), Star isspace, ch CHR '':'', Star isspace, Grp 2 (Lazy dot),
           Ahead (alts [seqs [rep1 isspace, rep_n 5 re_digit, Star isspace, ch CHR '':''],
                        Seq (rep1 isspace) (lit ''GR''),
                        Eol])]"

definition gr_re :: re where
  "gr_re = seqs [Grp 1 (seqs [lit ''GR'', Chr re_digit, ch CHR ''-'', Chr isupper_az]),
                 Star isspace, ch CHR '':'', Star isspace, opt (ch CHR ''!''), Star isspace,
                 Grp 2 (rep1 (\<lambda>c. isupper_az c \<or> c = CHR ''+'')), rep1 isspace,
                 Grp 3 (rep1 re_digit)]"

definition gz_sgpa_re :: re where
  "gz_sgpa_re = seqs [lit ''SGPA'', Star isspace, ch CHR '':'', Star isspace, Grp 1 (Lazy anyc),
                      alts [lit ''TOTAL'', lit ''CGPA'', Eol]]"

definition sgpa_val_re :: re where
  "sgpa_val_re = seqs [ch CHR ''('', Grp 1 (Chr re_digit), ch CHR '')'', Star isspace,
                       Grp 2 (rep1 digit_or_dot)]"

definition total_re :: re where
  "total_re = seqs [lit ''TOTAL'', rep1 isspace, Grp 1 (rep1 re_digit), rep1 isspace,
                    rep1 re_digit, rep1 isspace, Grp 2 (rep1 re_digit)]"

definition fy_re :: re where
  "fy_re = seqs [lit ''F.Y.TOTAL'', rep1 isspace, Grp 1 (rep1 re_digit), rep1 isspace,
                 rep1 re_digit, rep1 isspace, Grp 2 (rep1 re_digit)]"

definition cgpa_re :: re where
  "cgpa_re = seqs [lit ''CGPA'', Star isspace, ch CHR '':'', Star isspace,
                   Grp 1 (rep1 digit_or_dot)]"

definition final_grade_re :: re where
  "final_grade_re = seqs [lit ''FINAL GRADE'', Star isspace, ch CHR '':'', Star isspace,
                          Grp 1 (Lazy dot),
                          Grp 2 (alts [Eol, ch CHR 0x0A, lit ''The student''])]"

definition bal_re :: re where
  "bal_re = Grp 1 (seqs [lit ''O.'', rep1 re_digit, rep1 isspace, lit ''balance marks'',
                         Star isspace, ch CHR '':'', Star isspace, rep1 re_digit])"

definition fail_re :: re where
  "fail_re = Grp 1 (alts [seqs [liti ''FAIL'', rep1 isspace, liti ''A.T.K.T.''],
                          seqs [liti ''RESULT'', Star isspace, ch CHR '':'', Star isspace,
                                liti ''FAIL''],
                          seqs [liti ''FAIL'', rep1 isspace, ch CHR ''$'', rep1 isspace,
                                lit ''0.1'']])"

definition dash_re :: re where
  "dash_re = rep_ge 30 (\<lambda>c. c = CHR ''-'')"

text \<open>The loop that joins \<open>*\<close> or \<open>$\<close> to the mark after it.\<close>

fun gz_merge :: "string list \<Rightarrow> string list" where
  "gz_merge [] = []"
| "gz_merge [t] = [t]"
| "gz_merge (t # n # ts) =
     (if t = ''*'' \<or> t = ''$'' then (t @ '' '' @ n) # gz_merge ts
      else t # gz_merge (n # ts))"

text \<open>One regular subject: \<open>None\<close> when the text after the code has fewer than two tokens.\<close>

definition gz_regular_subject :: "rmatch \<Rightarrow> gz_subject option" where
  "gz_regular_subject m =
     (let parts = split (strip (group_text m 2)) in
      if length parts \<ge> 2 then
        let processed_marks = gz_merge (butlast (butlast parts)) in
        Some \<lparr>gz_code = group_text m 1,
              gz_internal = (if length processed_marks > 0 then processed_marks ! 0 else ''-''),
              gz_external = (if length processed_marks > 1 then processed_marks ! 1 else ''-''),
              gz_total = (if length processed_marks > 2 then processed_marks ! 2 else ''-''),
              gz_grade = last (butlast parts),
              gz_credits = last parts\<rparr>
      else None)"

definition gz_addon_subject :: "rmatch \<Rightarrow> gz_subject" where
  "gz_addon_subject m =
     \<lparr>gz_code = group_text m 1, gz_internal = ''-'', gz_external = ''-'', gz_total = ''-'',
      gz_grade = strip (group_text m 2), gz_credits = strip (group_text m 3)\<rparr>"

definition gz_sgpa_values :: "string \<Rightarrow> (string \<rightharpoonup> string)" where
  "gz_sgpa_values block_text =
     (case re_search gz_sgpa_re block_text of
        None \<Rightarrow> Map.empty
      | Some m \<Rightarrow>
          foldl (\<lambda>d v. d(group_text v 1 \<mapsto> group_text v 2)) Map.empty
                (re_finditer sgpa_val_re (group_text m 1)))"

definition gz_final_result :: "string \<Rightarrow> string" where
  "gz_final_result block_text =
     (let r0 = (case re_search cgpa_re block_text of None \<Rightarrow> ''FAIL'' | Some m \<Rightarrow> ''PASS'')
      in case re_search fail_re block_text of
           None \<Rightarrow> r0
         | Some m \<Rightarrow> if contains ''A.T.K.T'' (upper (group_text m 1)) then ''FAIL A.T.K.T.''
                     else ''FAIL'')"

definition gz_notes :: "string \<Rightarrow> string list" where
  "gz_notes block_text =
     (if contains ''balance marks'' block_text then
        (case re_search bal_re block_text of None \<Rightarrow> [] | Some m \<Rightarrow> [group_text m 1])
      else [])
     @ (if contains ''completed mandetory'' block_text
           \<or> contains ''completed mandatory'' block_text
        then [''The student has completed mandetory add-on credits for this programme.'']
        else [])"

text \<open>\<open>parse_gazette_block(block_text)\<close>. No step of it can raise: every index is guarded
  by a test of the length.\<close>

definition parse_gazette_block :: "string \<Rightarrow> gz_student option" where
  "parse_gazette_block block_text =
     (case re_search info_re block_text of
        None \<Rightarrow> None
      | Some info_match \<Rightarrow>
          let raw_name = strip (group_text info_match 2);
              sex_char = strip (group_text info_match 3);
              name_parts = split raw_name
          in Some
            \<lparr>gz_seat_no = strip (group_text info_match 1),
             gz_prn = strip (group_text info_match 4),
             gz_gender = (if sex_char = ''M'' then ''Male'' else ''Female''),
             gz_mother_name = (if length name_parts > 1 then last name_parts else ''-''),
             gz_full_name = (if length name_parts > 1 then join '' '' (butlast name_parts)
                             else raw_name),
             gz_subjects = List.map_filter gz_regular_subject (re_finditer subject_re block_text)
                           @ map gz_addon_subject (re_finditer gr_re block_text),
             gz_sgpa = gz_sgpa_values block_text,
             gz_total_credits = (case re_search total_re block_text of
                                   None \<Rightarrow> ''-'' | Some m \<Rightarrow> group_text m 1),
             gz_total_marks = (case re_search total_re block_text of
                                 None \<Rightarrow> ''-'' | Some m \<Rightarrow> group_text m 2),
             gz_fy_credits = (case re_search fy_re block_text of
                                None \<Rightarrow> ''-'' | Some m \<Rightarrow> group_text m 1),
             gz_fy_marks = (case re_search fy_re block_text of
                              None \<Rightarrow> ''-'' | Some m \<Rightarrow> group_text m 2),
             gz_cgpa = (case re_search cgpa_re block_text of
                          None \<Rightarrow> ''-'' | Some m \<Rightarrow> group_text m 1),
             gz_final_grade = (case re_search final_grade_re block_text of
                                 None \<Rightarrow> ''-'' | Some m \<Rightarrow> strip (group_text m 1)),
             gz_result = gz_final_result block_text,
             gz_extra_notes = gz_notes block_text\<rparr>)"

fun gz_blocks :: "gz_student list \<Rightarrow> string list \<Rightarrow> gz_student list" where
  "gz_blocks all_students_data [] = all_students_data"
| "gz_blocks all_students_data (block # bs) =
     (if strip block \<noteq> [] \<and> \<not> contains ''SEAT NO.'' block then
        (case parse_gazette_block block of
           None \<Rightarrow> gz_blocks all_students_data bs
         | Some student_info \<Rightarrow> gz_blocks (all_students_data @ [student_info]) bs)
      else gz_blocks all_students_data bs)"

definition analyze_gazette_pattern :: "string \<Rightarrow> gz_student list" where
  "analyze_gazette_pattern full_text = gz_blocks [] (re_split dash_re 0 full_text)"

definition gz_main :: "string + pdf \<Rightarrow> gz_student envelope" where
  "gz_main doc =
     (case doc of
        Inl e \<Rightarrow> Failure (''Internal PDF processing failure: '' @ e)
      | Inr pdf \<Rightarrow>
          let metadata = gz_extract_header_metadata pdf;
              all_text = join [CHR 0x0A] (map (\<lambda>p. text_of p X3Y3) pdf);
              students = analyze_gazette_pattern all_text
          in if students \<noteq> [] then Envelope metadata students
             else Failure ''No recognizable student records were identified in the PDF.'')"


definition no_names :: "string \<rightharpoonup> string" where
  "no_names = Map.empty"

text \<open>Small inputs: a page that gives the same text for every tolerance setting, and
  three short ledgers.\<close>

definition page_of :: "string \<Rightarrow> page" where
  "page_of s = (\<lambda>t. Some s)"

definition sy_small :: string where
  "sy_small = ''PRN: 7\<newline>SEMESTER: 1\<newline>First Semester SGPA : 8.0''"

definition nep_small :: string where
  "nep_small = ''PRN: 7 SEAT NO.: 8\<newline>Semester : 1''"

definition gz_small :: string where
  "gz_small = ''1234 A M 1234567890''"

definition nep_absent_block :: string where
  "nep_absent_block = ''PRN: 1 SEAT NO.: 2\<newline>Semester : 1\<newline>CS-101 AB AB AB 4 0 AB 0 0''"

definition nep_failed_block :: string where
  "nep_failed_block =
     ''PRN: 1 SEAT NO.: 2\<newline>Semester : 1\<newline>CS-101 10 05 15 4 0 F 0 0\<newline>Second Semester SGPA : 3.1''"

section \<open>What a pattern can match\<close>

text \<open>Three descriptions of a pattern that the proofs use: the numbers of its capture
  groups (\<open>grps\<close>), the texts it can consume (\<open>accepts\<close>; anchors and lookahead consume
  nothing), and the groups that take part in every match (\<open>sure\<close>). \<open>reaches r st st'\<close>
  relates the state before a match of \<open>r\<close> to a state after it.\<close>

primrec grps :: "re \<Rightarrow> nat set" where
  "grps (Chr p) = {}"
| "grps Eps = {}"
| "grps (Seq a b) = grps a \<union> grps b"
| "grps (Alt a b) = grps a \<union> grps b"
| "grps (Star p) = {}"
| "grps (Lazy p) = {}"
| "grps (Grp n a) = insert n (grps a)"
| "grps (Ahead a) = grps a"
| "grps Bol = {}"
| "grps BolM = {}"
| "grps Eol = {}"
| "grps EolM = {}"

primrec accepts :: "re \<Rightarrow> string \<Rightarrow> bool" where
  "accepts (Chr p) w = (\<exists>c. w = [c] \<and> p c)"
| "accepts Eps w = (w = [])"
| "accepts (Seq a b) w = (\<exists>u v. w = u @ v \<and> accepts a u \<and> accepts b v)"
| "accepts (Alt a b) w = (accepts a w \<or> accepts b w)"
| "accepts (Star p) w = list_all p w"
| "accepts (Lazy p) w = list_all p w"
| "accepts (Grp n a) w = accepts a w"
| "accepts (Ahead a) w = (w = [])"
| "accepts Bol w = (w = [])"
| "accepts BolM w = (w = [])"
| "accepts Eol w = (w = [])"
| "accepts EolM w = (w = [])"

primrec sure :: "re \<Rightarrow> nat set" where
  "sure (Chr p) = {}"
| "sure Eps = {}"
| "sure (Seq a b) = sure a \<union> sure b"
| "sure (Alt a b) = sure a \<inter> sure b"
| "sure (Star p) = {}"
| "sure (Lazy p) = {}"
| "sure (Grp n a) = insert n (sure a)"
| "sure (Ahead a) = sure a"
| "sure Bol = {}"
| "sure BolM = {}"
| "sure Eol = {}"
| "sure EolM = {}"

definition reaches :: "re \<Rightarrow> mstate \<Rightarrow> mstate \<Rightarrow> bool" where
  "reaches r st st' =
     ((\<exists>w. rest st = w @ rest st' \<and> accepts r w)
      \<and> (\<forall>n. n \<in> grps r \<or> caps st' n = caps st n)
      \<and> (\<forall>n. (n \<in> sure r \<or> caps st n \<noteq> None) \<longrightarrow> caps st' n \<noteq> None))"

section \<open>Properties of the subject-row tokenizer\<close>

lemma tokens_word: "\<not> list_ex isspace w \<Longrightarrow> tokens cur (w @ sfx) = tokens (cur @ w) sfx"
  by (induction w arbitrary: cur) auto

lemma split_row:
  assumes "c \<noteq> []" "\<not> list_ex isspace c"
  shows "split (c @ '' 45 38 83 4 4 A 8 32'') =
           [c, ''45'', ''38'', ''83'', ''4'', ''4'', ''A'', ''8'', ''32'']"
  using assms by (simp add: split_def tokens_word isspace_def)

lemma scan_grade_bounds:
  "scan_grade parts is = Some gi \<Longrightarrow> list_all (\<lambda>i. 1 \<le> i) is \<Longrightarrow>
     1 \<le> gi \<and> gi < length parts \<and> parts ! gi \<in> set valid_grades"
  by (induction "is") (auto split: if_splits)

lemma find_grade_bounds:
  "find_grade parts = Some gi \<Longrightarrow> 1 \<le> gi \<and> gi < length parts \<and> parts ! gi \<in> set valid_grades"
  using scan_grade_bounds[of parts "[1, 2, 3, 4, 5, 6]" gi] by (simp add: find_grade_def)

text \<open>
  C8. Each of the raw mark tokens \<open>---\<close>, \<open>AB\<close> and \<open>AAA\<close> is decomposed by
  \<open>split_prefix_marks\<close> into the pair of sentinels \<open>("-", "-")\<close>, not into a number.
\<close>

theorem absence_sentinels:
  "split_prefix_marks ''---'' = (''-'', ''-'')
   \<and> split_prefix_marks ''AB'' = (''-'', ''-'')
   \<and> split_prefix_marks ''AAA'' = (''-'', ''-'')"
  by (simp add: split_prefix_marks_def strip_def isspace_def)

text \<open>
  C2, as the claim states it, at the row whose first token is the text \<open>CODE\<close>: the
  filter for header lines rejects the row, and no record is returned.
\<close>

theorem grade_row_header_filtered:
  "parse_marks_row ''CODE 45 38 83 4 4 A 8 32'' no_names = None"
  by (simp add: parse_marks_row_def marks_row_body_def upper_def upper_chars_def upper_char_def clear5_def islower_az_def)

text \<open>
  C2, amended. For every subject code \<open>c\<close> that is one token (not empty, no whitespace)
  and every subject map, if the row \<open>c 45 38 83 4 4 A 8 32\<close> is not taken for a header
  line (its upper-case form contains none of \<open>CODE\<close>, \<open>NAME:\<close>, \<open>PRN:\<close>), then
  \<open>parse_marks_row\<close> returns a record with grade \<open>A\<close>, credits \<open>4\<close>, earned credits \<open>4\<close>,
  total \<open>83\<close>, grade point \<open>8\<close>, credit point \<open>32\<close>, internal marks \<open>45\<close> and external
  marks \<open>38\<close>, both without prefix, and an absent practical mark.
\<close>

theorem grade_row:
  assumes "c \<noteq> []" and "\<not> list_ex isspace c"
    and "\<not> contains ''CODE'' (upper (c @ '' 45 38 83 4 4 A 8 32''))"
    and "\<not> contains ''NAME:'' (upper (c @ '' 45 38 83 4 4 A 8 32''))"
    and "\<not> contains ''PRN:'' (upper (c @ '' 45 38 83 4 4 A 8 32''))"
  shows "parse_marks_row (c @ '' 45 38 83 4 4 A 8 32'') m =
     Some \<lparr> code = strip (replace '':'' '''' c),
             name = (case m (strip (replace '':'' '''' c)) of
                       None \<Rightarrow> ''Subject Name Not Found'' | Some n \<Rightarrow> n),
             p_int = '''', int_m = ''45'', p_ext = '''', ext_m = ''38'',
             p_pr = ''-'', pr_m = ''-'',
             total = ''83'', crd = ''4'', ern = ''4'', grd = ''A'', gp = ''8'', cp = ''32'' \<rparr>"
  using assms(3-5) split_row[OF assms(1,2)]
  by (simp add: parse_marks_row_def marks_row_body_def find_grade_def valid_grades_def
      py_index_def bind_err_def py_slice_def clamp_bound_def pad3_def split_prefix_marks_def
      strip_def re_digit_def isdigit_def isspace_def Let_def)

theorem grade_row_witness:
  "parse_marks_row ''CS101 45 38 83 4 4 A 8 32'' no_names =
     Some \<lparr> code = ''CS101'', name = ''Subject Name Not Found'',
             p_int = '''', int_m = ''45'', p_ext = '''', ext_m = ''38'',
             p_pr = ''-'', pr_m = ''-'',
             total = ''83'', crd = ''4'', ern = ''4'', grd = ''A'', gp = ''8'', cp = ''32'' \<rparr>"
  using grade_row[of "''CS101''" no_names]
  by (simp add: isspace_def upper_def upper_chars_def upper_char_def clear5_def islower_az_def strip_def no_names_def)

text \<open>
  C4, as the claim states it, at the row \<open>CS101 45 38 83 4 3 A 8 32\<close>: the grade \<open>A\<close> is
  token 6 and the token to its right is \<open>8\<close>, yet the earned credits of the record are
  \<open>3\<close>, the token to the left of the grade; \<open>8\<close> is the grade point.
\<close>

theorem earned_credits_left_of_grade:
  "find_grade (split ''CS101 45 38 83 4 3 A 8 32'') = Some 6
   \<and> split ''CS101 45 38 83 4 3 A 8 32'' ! 7 = ''8''
   \<and> map_option ern (parse_marks_row ''CS101 45 38 83 4 3 A 8 32'' no_names) = Some ''3''
   \<and> map_option gp (parse_marks_row ''CS101 45 38 83 4 3 A 8 32'' no_names) = Some ''8''"
  by (simp add: parse_marks_row_def marks_row_body_def find_grade_def valid_grades_def
      py_index_def bind_err_def py_slice_def clamp_bound_def pad3_def split_prefix_marks_def
      strip_def re_digit_def isdigit_def isspace_def Let_def upper_def upper_chars_def upper_char_def clear5_def islower_az_def
      split_def no_names_def)

text \<open>
  C4, amended. In every row that \<open>parse_marks_row\<close> accepts, the grade is the token at the
  index \<open>gi\<close> that the scan from the right finds; the earned credits are the token
  immediately to its left and the credits the token before that one (read with Python's
  index arithmetic); the grade point and the credit point are the first and the second
  token to its right, and each of these two is \<open>"0"\<close> when the row ends before it.
\<close>

theorem row_fields_around_grade:
  assumes "parse_marks_row line m = Some r"
  shows "\<exists>gi. find_grade (split line) = Some gi \<and> 1 \<le> gi \<and> gi < length (split line)
          \<and> grd r = split line ! gi
          \<and> ern r = split line ! (gi - 1)
          \<and> py_index (split line) (int gi - 2) = Inr (crd r)
          \<and> gp r = (if gi + 1 < length (split line) then split line ! (gi + 1) else ''0'')
          \<and> cp r = (if gi + 2 < length (split line) then split line ! (gi + 2) else ''0'')"
proof -
  from assms obtain gi where g: "find_grade (split line) = Some gi"
    by (auto simp: parse_marks_row_def marks_row_body_def Let_def
        split: if_splits option.splits sum.splits)
  note b = find_grade_bounds[OF g]
  from b have i1: "py_index (split line) (int gi - 1) = Inr (split line ! (gi - 1))"
    by (auto simp: py_index_def Let_def nat_diff_distrib')
  show ?thesis
    using assms g b i1
    apply (simp add: parse_marks_row_def marks_row_body_def Let_def bind_err_def
        split: if_splits sum.splits prod.splits)
    apply auto
    done
qed

theorem row_fields_around_grade_witness:
  "\<exists>gi. find_grade (split ''CS101 45 38 83 4 3 A 8'') = Some gi \<and> 1 \<le> gi
          \<and> gi < length (split ''CS101 45 38 83 4 3 A 8'')
          \<and> ''A'' = split ''CS101 45 38 83 4 3 A 8'' ! gi
          \<and> ''3'' = split ''CS101 45 38 83 4 3 A 8'' ! (gi - 1)
          \<and> py_index (split ''CS101 45 38 83 4 3 A 8'') (int gi - 2) = Inr ''4''
          \<and> ''8'' = (if gi + 1 < length (split ''CS101 45 38 83 4 3 A 8'')
                      then split ''CS101 45 38 83 4 3 A 8'' ! (gi + 1) else ''0'')
          \<and> ''0'' = (if gi + 2 < length (split ''CS101 45 38 83 4 3 A 8'')
                      then split ''CS101 45 38 83 4 3 A 8'' ! (gi + 2) else ''0'')"
proof -
  have p: "parse_marks_row ''CS101 45 38 83 4 3 A 8'' no_names =
     Some \<lparr> code = ''CS101'', name = ''Subject Name Not Found'',
             p_int = '''', int_m = ''45'', p_ext = '''', ext_m = ''38'',
             p_pr = ''-'', pr_m = ''-'',
             total = ''83'', crd = ''4'', ern = ''3'', grd = ''A'', gp = ''8'', cp = ''0'' \<rparr>"
    by (simp add: parse_marks_row_def marks_row_body_def find_grade_def valid_grades_def
      py_index_def bind_err_def py_slice_def clamp_bound_def pad3_def split_prefix_marks_def
      strip_def re_digit_def isdigit_def isspace_def Let_def upper_def upper_chars_def upper_char_def clear5_def islower_az_def
      split_def no_names_def)
  show ?thesis using row_fields_around_grade[OF p] by simp
qed

section \<open>Soundness of the matcher\<close>

text \<open>Whatever the matcher hands to its continuation is a state that the pattern
  reaches: the text consumed is one the pattern accepts, and only the groups of the pattern
  have changed.\<close>

lemma star_sound:
  "star p k pv s g = Some res \<Longrightarrow>
     \<exists>w s' pv'. s = w @ s' \<and> list_all p w \<and> k \<lparr>prev = pv', rest = s', caps = g\<rparr> = Some res"
proof (induction s arbitrary: pv)
  case Nil
  then show ?case by auto
next
  case (Cons c cs)
  show ?case
  proof (cases "p c \<and> star p k (Some c) cs g = Some res")
    case True
    with Cons.IH[of "Some c"] obtain w s' pv' where
      "cs = w @ s'" "list_all p w" "k \<lparr>prev = pv', rest = s', caps = g\<rparr> = Some res" by blast
    with True have "c # cs = (c # w) @ s' \<and> list_all p (c # w)
        \<and> k \<lparr>prev = pv', rest = s', caps = g\<rparr> = Some res" by simp
    then show ?thesis by blast
  next
    case False
    with Cons.prems have "k \<lparr>prev = pv, rest = c # cs, caps = g\<rparr> = Some res"
      by (auto split: if_splits option.splits)
    then have "c # cs = [] @ (c # cs) \<and> list_all p []
        \<and> k \<lparr>prev = pv, rest = c # cs, caps = g\<rparr> = Some res" by simp
    then show ?thesis by blast
  qed
qed

lemma lazy_sound:
  "lazy p k pv s g = Some res \<Longrightarrow>
     \<exists>w s' pv'. s = w @ s' \<and> list_all p w \<and> k \<lparr>prev = pv', rest = s', caps = g\<rparr> = Some res"
proof (induction s arbitrary: pv)
  case Nil
  then show ?case by auto
next
  case (Cons c cs)
  show ?case
  proof (cases "k \<lparr>prev = pv, rest = c # cs, caps = g\<rparr>")
    case (Some r)
    with Cons.prems have "c # cs = [] @ (c # cs) \<and> list_all p []
        \<and> k \<lparr>prev = pv, rest = c # cs, caps = g\<rparr> = Some res" by simp
    then show ?thesis by blast
  next
    case None
    with Cons.prems have pc: "p c" and l: "lazy p k (Some c) cs g = Some res"
      by (auto split: if_splits)
    from Cons.IH[OF l] obtain w s' pv' where
      "cs = w @ s'" "list_all p w" "k \<lparr>prev = pv', rest = s', caps = g\<rparr> = Some res" by blast
    with pc have "c # cs = (c # w) @ s' \<and> list_all p (c # w)
        \<and> k \<lparr>prev = pv', rest = s', caps = g\<rparr> = Some res" by simp
    then show ?thesis by blast
  qed
qed

lemma mk_sound: "mk r k st = Some res \<Longrightarrow> \<exists>st'. k st' = Some res \<and> reaches r st st'"
proof (induction r arbitrary: k st res)
  case (Chr p)
  then show ?case by (auto simp: reaches_def split: list.splits if_splits)
next
  case Eps
  then show ?case by (auto simp: reaches_def)
next
  case (Seq a b)
  from Seq.prems have "mk a (mk b k) st = Some res" by simp
  from Seq.IH(1)[OF this] obtain s1 where s1: "mk b k s1 = Some res" "reaches a st s1" by blast
  from Seq.IH(2)[OF s1(1)] obtain s2 where s2: "k s2 = Some res" "reaches b s1 s2" by blast
  from s1(2) s2(2) obtain w1 w2 where
    w: "rest st = w1 @ rest s1" "accepts a w1" "rest s1 = w2 @ rest s2" "accepts b w2"
    by (auto simp: reaches_def)
  then have "rest st = (w1 @ w2) @ rest s2 \<and> accepts (Seq a b) (w1 @ w2)" by auto
  then have 1: "\<exists>w. rest st = w @ rest s2 \<and> accepts (Seq a b) w" by blast
  from s1(2) s2(2) have 2: "\<forall>n. n \<in> grps (Seq a b) \<or> caps s2 n = caps st n"
    by (fastforce simp: reaches_def)
  from s1(2) s2(2) have 3:
    "\<forall>n. (n \<in> sure (Seq a b) \<or> caps st n \<noteq> None) \<longrightarrow> caps s2 n \<noteq> None"
    by (fastforce simp: reaches_def)
  from 1 2 3 have "reaches (Seq a b) st s2" unfolding reaches_def by blast
  with s2(1) show ?case by blast
next
  case (Alt a b)
  then show ?case
  proof (cases "mk a k st")
    case None
    with Alt.prems have "mk b k st = Some res" by simp
    from Alt.IH(2)[OF this] show ?thesis by (auto simp: reaches_def)
  next
    case (Some r)
    with Alt.prems have "mk a k st = Some res" by simp
    from Alt.IH(1)[OF this] show ?thesis by (auto simp: reaches_def)
  qed
next
  case (Star p)
  then have "star p k (prev st) (rest st) (caps st) = Some res" by simp
  from star_sound[OF this] show ?case by (auto simp: reaches_def; force)
next
  case (Lazy p)
  then have "lazy p k (prev st) (rest st) (caps st) = Some res" by simp
  from lazy_sound[OF this] show ?case by (auto simp: reaches_def; force)
next
  case (Grp n a)
  let ?k = "\<lambda>st'. k (st'\<lparr>caps := (caps st')(n \<mapsto>
              take (length (rest st) - length (rest st')) (rest st))\<rparr>)"
  from Grp.prems have "mk a ?k st = Some res" by simp
  from Grp.IH[OF this] obtain s1 where s1: "?k s1 = Some res" "reaches a st s1" by blast
  from s1(2) have "reaches (Grp n a) st (s1\<lparr>caps := (caps s1)(n \<mapsto>
              take (length (rest st) - length (rest s1)) (rest st))\<rparr>)"
    by (auto simp: reaches_def)
  with s1(1) show ?case by blast
next
  case (Ahead a)
  from Ahead.prems obtain s1 where m: "mk a Some st = Some s1"
      and k: "k (st\<lparr>caps := caps s1\<rparr>) = Some res"
    by (auto split: option.splits)
  from Ahead.IH[OF m] have "reaches a st s1" by auto
  then have "reaches (Ahead a) st (st\<lparr>caps := caps s1\<rparr>)" by (auto simp: reaches_def)
  with k show ?case by blast
next
  case Bol
  then show ?case by (auto simp: reaches_def split: if_splits)
next
  case BolM
  then show ?case by (auto simp: reaches_def split: if_splits)
next
  case Eol
  then show ?case by (auto simp: reaches_def split: if_splits)
next
  case EolM
  then show ?case by (auto simp: reaches_def split: if_splits)
qed

lemma mk_group:
  assumes "mk (Grp n a) k st = Some res"
  shows "\<exists>st' w. k st' = Some res \<and> caps st' n = Some w \<and> accepts a w"
proof -
  let ?k = "\<lambda>st'. k (st'\<lparr>caps := (caps st')(n \<mapsto>
              take (length (rest st) - length (rest st')) (rest st))\<rparr>)"
  from assms have "mk a ?k st = Some res" by simp
  from mk_sound[OF this] obtain s1 where s1: "?k s1 = Some res" "reaches a st s1" by blast
  from s1(2) obtain w where w: "rest st = w @ rest s1" "accepts a w" by (auto simp: reaches_def)
  then have "take (length (rest st) - length (rest s1)) (rest st) = w" by simp
  with s1(1) w(2) show ?thesis by (metis (mono_tags, lifting) fun_upd_same mstate.select_convs(3) mstate.surjective mstate.update_convs(3))
qed

lemma grps_seqs [simp]: "grps (seqs rs) = \<Union> (grps ` set rs)"
  by (induction rs) (auto simp: seqs_def)

lemma grps_lit [simp]: "grps (lit s) = {}"
  by (induction s) (auto simp: lit_def)

lemma grps_liti [simp]: "grps (liti s) = {}"
  by (induction s) (auto simp: liti_def)

lemma grps_simple [simp]:
  "grps (rep1 p) = {}" "grps (lazy_rep1 p) = {}" "grps (rep_n n p) = {}"
  "grps (rep_ge n p) = {}" "grps (ch c) = {}" "grps (opt r) = grps r"
  by (auto simp: rep1_def lazy_rep1_def rep_n_def rep_ge_def ch_def opt_def)

lemma grps_rep_upto [simp]: "grps (rep_upto n p) = {}"
  by (induction n) (auto simp: opt_def)

lemma grps_rep_between [simp]: "grps (rep_between n m p) = {}"
  by (simp add: rep_between_def)

lemma accepts_rep_n: "accepts (rep_n n p) w \<Longrightarrow> length w = n \<and> list_all p w"
  by (induction n arbitrary: w) (auto simp: rep_n_def seqs_def)

lemma accepts_rep1: "accepts (rep1 p) w \<Longrightarrow> w \<noteq> [] \<and> list_all p w"
  by (auto simp: rep1_def)

lemma accepts_rep_ge: "accepts (rep_ge n p) w \<Longrightarrow> n \<le> length w \<and> list_all p w"
  by (auto simp: rep_ge_def dest!: accepts_rep_n)

lemma seqs_skip:
  "mk (seqs (pre @ rs)) k st = Some res \<Longrightarrow> \<exists>st'. mk (seqs rs) k st' = Some res"
proof (induction pre arbitrary: st)
  case Nil
  then show ?case by auto
next
  case (Cons r pre)
  then have "mk r (mk (seqs (pre @ rs)) k) st = Some res" by (simp add: seqs_def)
  from mk_sound[OF this] obtain s1 where "mk (seqs (pre @ rs)) k s1 = Some res" by blast
  from Cons.IH[OF this] show ?case .
qed

lemma seqs_group:
  assumes "mk (seqs (pre @ Grp n a # post)) k st = Some res"
    and "list_all (\<lambda>r. n \<notin> grps r) post"
  shows "\<exists>st' w. k st' = Some res \<and> caps st' n = Some w \<and> accepts a w"
proof -
  from seqs_skip[OF assms(1)] obtain s1 where
    "mk (seqs (Grp n a # post)) k s1 = Some res" by blast
  then have "mk (Grp n a) (mk (seqs post) k) s1 = Some res" by (simp add: seqs_def)
  from mk_group[OF this] obtain s2 w where
    s2: "mk (seqs post) k s2 = Some res" "caps s2 n = Some w" "accepts a w" by blast
  from mk_sound[OF s2(1)] obtain s3 where s3: "k s3 = Some res" "reaches (seqs post) s2 s3"
    by blast
  from assms(2) have "n \<notin> grps (seqs post)" by (auto simp: list_all_iff)
  with s3(2) have "caps s3 n = caps s2 n" by (auto simp: reaches_def)
  with s2 s3(1) show ?thesis by auto
qed

lemma search_from_attempt:
  "search_from r pv s = Some m \<Longrightarrow> \<exists>pv' s'. attempt r False pv' s' = Some m"
  by (induction s arbitrary: pv) (auto split: option.splits)

lemma attempt_mk:
  assumes "attempt r False pv s = Some m"
  shows "\<exists>st'. mk r Some \<lparr>prev = pv, rest = s, caps = Map.empty\<rparr> = Some st'
               \<and> m_caps m = caps st'"
  using assms by (auto simp: attempt_def split: option.splits)

text \<open>A capture group that stands in the top-level sequence of a pattern takes part in
  every match that \<open>re.search\<close> finds, and its text is one the group's body accepts.\<close>

lemma search_group:
  assumes "re_search (seqs (pre @ Grp n a # post)) s = Some m"
    and "list_all (\<lambda>r. n \<notin> grps r) post"
  shows "m_caps m n = Some (group_text m n) \<and> accepts a (group_text m n)"
proof -
  from assms(1) obtain pv' s' where
    "attempt (seqs (pre @ Grp n a # post)) False pv' s' = Some m"
    unfolding re_search_def using search_from_attempt by blast
  from attempt_mk[OF this] obtain st' where
    st': "mk (seqs (pre @ Grp n a # post)) Some \<lparr>prev = pv', rest = s', caps = Map.empty\<rparr> = Some st'"
    "m_caps m = caps st'" by blast
  from seqs_group[OF st'(1) assms(2)] obtain w where "caps st' n = Some w" "accepts a w"
    by auto
  with st'(2) show ?thesis by (simp add: group_text_def)
qed

text \<open>Every capture group that the parsers read lies outside any alternative or option of
  its pattern, so it takes part in every match, whichever function finds the match:
  \<open>group_text\<close> never falls back to its default.\<close>

lemma attempt_sure:
  assumes "attempt r adv pv s = Some m" and "n \<in> sure r"
  shows "m_caps m n \<noteq> None"
proof -
  let ?k = "\<lambda>st'. if adv \<and> length (rest st') = length s then None else Some st'"
  from assms(1) obtain res where
    r: "mk r ?k \<lparr>prev = pv, rest = s, caps = Map.empty\<rparr> = Some res" and c: "m_caps m = caps res"
    by (auto simp: attempt_def split: option.splits)
  from mk_sound[OF r] obtain st' where
    "?k st' = Some res" "reaches r \<lparr>prev = pv, rest = s, caps = Map.empty\<rparr> st'" by blast
  with assms(2) have "caps res n \<noteq> None" by (auto simp: reaches_def split: if_splits)
  with c show ?thesis by simp
qed

lemma search_sure:
  assumes "re_search r s = Some m" and "n \<in> sure r"
  shows "m_caps m n = Some (group_text m n)"
proof -
  have "search_from r pv s = Some m \<Longrightarrow> \<exists>pv' s'. attempt r False pv' s' = Some m" for pv
    by (induction s arbitrary: pv) (auto split: option.splits)
  with assms(1) obtain pv' s' where "attempt r False pv' s' = Some m"
    unfolding re_search_def by blast
  from attempt_sure[OF this assms(2)] show ?thesis by (auto simp: group_text_def)
qed

lemma match_sure:
  assumes "re_match r s = Some m" and "n \<in> sure r"
  shows "m_caps m n = Some (group_text m n)"
  using attempt_sure[of r False None s m n] assms by (auto simp: re_match_def group_text_def)

lemma here_sure:
  assumes "m \<in> set (fst (here r pv s))" and "n \<in> sure r"
  shows "m_caps m n \<noteq> None"
  using assms attempt_sure[of r False pv s _ n] attempt_sure[of r True pv s _ n]
  by (auto simp: here_def split: option.splits if_splits)

lemma with_gap_set: "snd ` set (with_gap gap ms) = set ms"
  by (cases ms) (auto simp: with_gap_def image_iff)

lemma followed_by_set:
  "snd ` set (fst (followed_by xs res)) = snd ` set xs \<union> snd ` set (fst res)"
  by (auto simp: followed_by_def)

lemma scan_sure:
  "m \<in> snd ` set (fst (scan r pv s skip gap)) \<Longrightarrow> n \<in> sure r \<Longrightarrow> m_caps m n \<noteq> None"
proof (induction r pv s skip gap rule: scan.induct)
  case (1 r pv skip gap)
  from "1.prems"(1) have "m \<in> set (fst (here r pv []))"
    by (auto simp: with_gap_set split: if_splits)
  from here_sure[OF this] "1.prems"(2) show ?case by simp
next
  case (2 r pv c cs k gap)
  then show ?case by simp
next
  case (3 r pv c cs gap)
  obtain ms k where h: "here r pv (c # cs) = (ms, k)" by (cases "here r pv (c # cs)")
  have hs: "x \<in> set ms \<Longrightarrow> m_caps x n \<noteq> None" for x
    using here_sure[of x r pv "c # cs" n] h "3.prems"(2) by simp
  show ?case
  proof (cases ms)
    case Nil
    with h "3.prems" "3.IH"(1) show ?thesis by simp
  next
    case (Cons m0 ms')
    show ?thesis
    proof (cases k)
      case 0
      from h Cons 0 have "scan r pv (c # cs) 0 gap =
          followed_by (with_gap gap ms) (scan r (Some c) cs 0 [c])" by simp
      with "3.prems"(1) have
        "m \<in> set ms \<or> m \<in> snd ` set (fst (scan r (Some c) cs 0 [c]))"
        by (simp only: followed_by_set with_gap_set Un_iff)
      with hs "3.IH"(2)[OF h[symmetric] Cons 0] "3.prems"(2) show ?thesis by blast
    next
      case (Suc k')
      from h Cons Suc have "scan r pv (c # cs) 0 gap =
          followed_by (with_gap gap ms) (scan r (Some c) cs k' [])" by simp
      with "3.prems"(1) have
        "m \<in> set ms \<or> m \<in> snd ` set (fst (scan r (Some c) cs k' []))"
        by (simp only: followed_by_set with_gap_set Un_iff)
      with hs "3.IH"(3)[OF h[symmetric] Cons Suc] "3.prems"(2) show ?thesis by blast
    qed
  qed
qed

lemma finditer_sure:
  assumes "m \<in> set (re_finditer r s)" and "n \<in> sure r"
  shows "m_caps m n = Some (group_text m n)"
  using scan_sure[of m r None s 0 "[]" n] assms
  by (auto simp: re_finditer_def re_scan_def group_text_def)

lemma sure_seqs [simp]: "sure (seqs rs) = \<Union> (sure ` set rs)"
  by (induction rs) (auto simp: seqs_def)

lemma groups_take_part:
  "list_all (\<lambda>(r, n). n \<in> sure r)
     [(pun_re, 1), (sy_course_re, 1), (sy_college_re, 1), (sy_college_fallback_re, 1),
      (map_pun_re, 1), (map_coll_re, 1), (map_course_re, 1), (map_row_re, 1), (map_row_re, 2),
      (local_coll_re, 1), (prn_re, 1), (seat_re, 1), (name_re, 1), (mother_re, 1),
      (result_re, 1), (cred_re, 1), (sem_split_re, 1), (sem_head_re, 1), (sgpa_re label, 1),
      (nep_course_re, 1), (nep_college_re, 1), (nep_map_row_re, 1), (nep_map_row_re, 2),
      (nep_prn_re, 1), (nep_seat_re, 1), (nep_name_re, 1), (nep_mother_re, 1),
      (s1_sum_re, 1), (s2_sum_re, 1), (s1_val_re, 1), (s2_val_re, 1), (fy_res_re, 1),
      (tcp_re, 1),
      (gz_course_re, 1), (gz_course_fallback_re, 1), (gz_college_re, 1),
      (info_re, 1), (info_re, 2), (info_re, 3), (info_re, 4),
      (subject_re, 1), (subject_re, 2), (gr_re, 1), (gr_re, 2), (gr_re, 3),
      (gz_sgpa_re, 1), (sgpa_val_re, 1), (sgpa_val_re, 2), (total_re, 1), (total_re, 2),
      (fy_re, 1), (fy_re, 2), (cgpa_re, 1), (final_grade_re, 1), (bal_re, 1), (fail_re, 1)]"
  by (simp add: pun_re_def sy_course_re_def sy_college_re_def sy_college_fallback_re_def
      map_pun_re_def map_coll_re_def map_course_re_def map_row_re_def local_coll_re_def
      prn_re_def seat_re_def name_re_def mother_re_def result_re_def cred_re_def
      sem_split_re_def sem_head_re_def sgpa_re_def nep_course_re_def nep_college_re_def
      nep_map_row_re_def nep_prn_re_def nep_seat_re_def nep_name_re_def nep_mother_re_def
      s1_sum_re_def s2_sum_re_def s1_val_re_def s2_val_re_def fy_res_re_def tcp_re_def
      gz_course_re_def gz_course_fallback_re_def gz_college_re_def info_re_def subject_re_def
      gr_re_def gz_sgpa_re_def sgpa_val_re_def total_re_def fy_re_def cgpa_re_def
      final_grade_re_def bal_re_def fail_re_def)

lemma digit_not_space: "re_digit c \<Longrightarrow> \<not> isspace c"
  by (auto simp: re_digit_def isdigit_def isspace_def)

lemma dropWhile_none: "list_all (\<lambda>c. \<not> P c) w \<Longrightarrow> dropWhile P w = w"
  by (cases w) auto

lemma strip_no_space:
  assumes "list_all (\<lambda>c. \<not> isspace c) w"
  shows "strip w = w"
proof -
  from assms have "list_all (\<lambda>c. \<not> isspace c) (rev w)" by (simp add: list_all_iff)
  then have "dropWhile isspace (rev w) = rev w" by (rule dropWhile_none)
  with dropWhile_none[OF assms] show ?thesis by (simp add: strip_def)
qed

lemma strip_digits: "list_all re_digit w \<Longrightarrow> strip w = w"
  by (rule strip_no_space) (auto simp: list_all_iff digit_not_space)

section \<open>Identity fields\<close>

lemma prn_digits:
  assumes "re_search prn_re s = Some m"
  shows "group_text m 1 \<noteq> [] \<and> list_all re_digit (group_text m 1)"
proof -
  have "prn_re = seqs ([lit ''PRN:'', Star isspace] @ Grp 1 (rep1 re_digit) # [])"
    by (simp add: prn_re_def)
  with assms search_group[of "[lit ''PRN:'', Star isspace]" 1 "rep1 re_digit" "[]" s m]
  show ?thesis by (auto dest: accepts_rep1)
qed

lemma nep_prn_digits:
  assumes "re_search nep_prn_re s = Some m"
  shows "group_text m 1 \<noteq> [] \<and> list_all re_digit (group_text m 1)"
proof -
  have "nep_prn_re =
          seqs ([lit ''PRN'', opt (ch CHR '':''), Star isspace] @ Grp 1 (rep1 re_digit) # [])"
    by (simp add: nep_prn_re_def)
  with assms
    search_group[of "[lit ''PRN'', opt (ch CHR '':''), Star isspace]" 1 "rep1 re_digit" "[]" s m]
  show ?thesis by (auto dest: accepts_rep1)
qed

lemma nep_seat_digits:
  assumes "re_search nep_seat_re s = Some m"
  shows "group_text m 1 \<noteq> [] \<and> list_all re_digit (group_text m 1)"
proof -
  have "nep_seat_re =
          seqs ([lit ''SEAT NO.'', opt (ch CHR '':''), Star isspace] @ Grp 1 (rep1 re_digit) # [])"
    by (simp add: nep_seat_re_def)
  with assms
    search_group[of "[lit ''SEAT NO.'', opt (ch CHR '':''), Star isspace]" 1 "rep1 re_digit" "[]" s m]
  show ?thesis by (auto dest: accepts_rep1)
qed

lemma info_digits:
  assumes "re_search info_re s = Some m"
  shows "group_text m 1 \<noteq> [] \<and> list_all re_digit (group_text m 1)
       \<and> group_text m 4 \<noteq> [] \<and> list_all re_digit (group_text m 4)"
proof -
  let ?post = "[rep1 isspace, Grp 2 (lazy_rep1 dot), rep1 isspace,
                   Grp 3 (Chr (\<lambda>c. c = CHR ''M'' \<or> c = CHR ''F'')), rep1 isspace,
                   Grp 4 (rep_ge 10 re_digit)]"
  have e1: "info_re = seqs ([] @ Grp 1 (rep_ge 4 re_digit) # ?post)"
    by (simp add: info_re_def)
  have e4: "info_re =
      seqs (butlast (Grp 1 (rep_ge 4 re_digit) # ?post) @ Grp 4 (rep_ge 10 re_digit) # [])"
    by (simp add: info_re_def)
  from assms e1 have "accepts (rep_ge 4 re_digit) (group_text m 1)"
    using search_group[of "[]" 1 "rep_ge 4 re_digit" ?post s m] by simp
  moreover from assms e4 have "accepts (rep_ge 10 re_digit) (group_text m 4)"
    using search_group[of "butlast (Grp 1 (rep_ge 4 re_digit) # ?post)" 4
        "rep_ge 10 re_digit" "[]" s m] by simp
  ultimately show ?thesis by (auto dest!: accepts_rep_ge)
qed


text \<open>The SY pattern: the loops over rows and parts change the subject lists and the
  summaries only.\<close>

lemma sy_rows_keeps:
  "sy_rows subject_map sem st ls = Inr st' \<Longrightarrow>
     sy_prn st' = sy_prn st \<and> sy_result st' = sy_result st
     \<and> sy_seat_no st' = sy_seat_no st"
proof (induction ls arbitrary: st)
  case Nil
  then show ?case by simp
next
  case (Cons line ls)
  from Cons.prems obtain st1 where
    a: "(case parse_marks_row line subject_map of
          None \<Rightarrow> Inr st
        | Some row \<Rightarrow>
            (case sy_sem_subjects st sem of
               None \<Rightarrow> Inl KeyError
             | Some rows \<Rightarrow> Inr (st\<lparr>sy_sem_subjects := (sy_sem_subjects st)(sem \<mapsto> rows @ [row])\<rparr>)))
        = Inr st1"
    and b: "sy_rows subject_map sem
                 (if contains ''SGPA'' line
                  then st1\<lparr>sy_sem_summary :=
                             (sy_sem_summary st1)(sem \<mapsto> strip (re_sub page_re '''' line))\<rparr>
                  else st1) ls = Inr st'"
    by (auto simp: bind_err_def split: sum.splits)
  from a have "sy_prn st1 = sy_prn st \<and> sy_result st1 = sy_result st
     \<and> sy_seat_no st1 = sy_seat_no st"
    by (auto split: option.splits)
  with Cons.IH[OF b] show ?case by (auto split: if_splits)
qed

lemma sy_parts_keeps:
  "sy_parts subject_map current_sem st ps = Inr st' \<Longrightarrow>
     sy_prn st' = sy_prn st \<and> sy_result st' = sy_result st
     \<and> sy_seat_no st' = sy_seat_no st"
proof (induction ps arbitrary: st current_sem)
  case Nil
  then show ?case by simp
next
  case (Cons part ps)
  show ?case
  proof (cases "re_match sem_head_re (strip part)")
    case (Some m)
    with Cons.prems Cons.IH show ?thesis by simp
  next
    case None
    show ?thesis
    proof (cases "current_sem = None \<or> current_sem = Some []")
      case True
      with None Cons.prems Cons.IH show ?thesis by (auto split: option.splits)
    next
      case False
      then obtain sem where sem: "current_sem = Some sem" "sem \<noteq> []" by auto
      with None Cons.prems obtain st1 where
        r: "sy_rows subject_map sem st (lines part) = Inr st1"
        and p: "sy_parts subject_map current_sem st1 ps = Inr st'"
        by (auto simp: bind_err_def split: sum.splits)
      from sy_rows_keeps[OF r] Cons.IH[OF p] show ?thesis by simp
    qed
  qed
qed

lemma sy_block_body_prn:
  assumes "sy_block_body subject_map md block = Inr st"
  shows "sy_prn st = (case re_search prn_re block of None \<Rightarrow> ''-'' | Some m \<Rightarrow> group_text m 1)"
proof -
  from assms obtain st0 where
    p: "sy_parts subject_map None (sy_profile block (sy_new_student md))
          (re_split sem_split_re 1 block) = Inr st0"
    and s: "sy_prn st = sy_prn st0"
    by (auto simp: sy_block_body_def bind_err_def Let_def sy_infer_result_def
        split: sum.splits option.splits if_splits)
  have "sy_prn (sy_profile block (sy_new_student md)) =
          (case re_search prn_re block of None \<Rightarrow> ''-'' | Some m \<Rightarrow> group_text m 1)"
    by (simp add: sy_profile_def sy_new_student_def Let_def split: option.splits)
  with sy_parts_keeps[OF p] s show ?thesis by simp
qed

lemma sy_blocks_all:
  assumes step: "\<And>md block st. sy_block_body subject_map md block = Inr st \<Longrightarrow>
                   sy_prn st \<noteq> ''-'' \<Longrightarrow> P st"
  shows "list_all P (snd acc) \<Longrightarrow> list_all P (snd (sy_blocks subject_map acc bs))"
proof (induction bs arbitrary: acc)
  case Nil
  then show ?case by simp
next
  case (Cons block bs)
  show ?case
  proof (cases "contains ''SEMESTER'' block")
    case False
    with Cons show ?thesis by simp
  next
    case True
    show ?thesis
    proof (cases "sy_block_body subject_map (sy_block_metadata (fst acc) block) block")
      case (Inl e)
      with True Cons.IH[of "(sy_block_metadata (fst acc) block, snd acc)"] Cons.prems
      show ?thesis by (simp add: Let_def)
    next
      case (Inr st)
      show ?thesis
      proof (cases "sy_prn st = ''-''")
        case True
        with Inr \<open>contains ''SEMESTER'' block\<close>
          Cons.IH[of "(sy_block_metadata (fst acc) block, snd acc)"] Cons.prems
        show ?thesis by (simp add: Let_def)
      next
        case False
        with step[OF Inr] have "P st" by simp
        with Cons.prems have "list_all P (snd acc @ [st])" by simp
        with Inr False \<open>contains ''SEMESTER'' block\<close>
          Cons.IH[of "(sy_block_metadata (fst acc) block, snd acc @ [st])"]
        show ?thesis by (simp add: Let_def)
      qed
    qed
  qed
qed

lemma sy_main_all:
  assumes step: "\<And>subject_map md block st. sy_block_body subject_map md block = Inr st \<Longrightarrow>
                   sy_prn st \<noteq> ''-'' \<Longrightarrow> P st"
    and "success (sy_main doc)"
  shows "list_all P (student_data (sy_main doc))"
proof (cases doc)
  case (Inl e)
  with assms(2) show ?thesis by (simp add: sy_main_def success_def)
next
  case (Inr pdf)
  have "list_all P (snd (sy_blocks sm (md, []) bs))" for sm md bs
    using sy_blocks_all[of sm P "(md, [])" bs] step by simp
  with Inr show ?thesis by (simp add: sy_main_def Let_def)
qed

lemma nep_blocks_all:
  assumes step: "\<And>b res. parse_nep_block b subject_map = Some res \<Longrightarrow>
                   P (res\<lparr>nep_course_name := Some (course_name md)\<rparr>)"
  shows "list_all P acc \<Longrightarrow> list_all P (nep_blocks subject_map md acc bs)"
  by (induction bs arbitrary: acc) (auto split: option.splits dest: step)

lemma nep_pages_all:
  assumes step: "\<And>b res. parse_nep_block b subject_map = Some res \<Longrightarrow>
                   P (res\<lparr>nep_course_name := Some (course_name md)\<rparr>)"
  shows "list_all P acc \<Longrightarrow> list_all P (nep_pages subject_map md acc ps)"
proof (induction ps arbitrary: acc)
  case Nil
  then show ?case by simp
next
  case (Cons p ps)
  from nep_blocks_all[of subject_map P md acc, OF step] Cons.prems
  have "list_all P (nep_blocks subject_map md acc bs)" for bs by simp
  with Cons show ?case by (auto split: option.splits)
qed

lemma gz_blocks_all:
  assumes step: "\<And>b res. parse_gazette_block b = Some res \<Longrightarrow> P res"
  shows "list_all P acc \<Longrightarrow> list_all P (gz_blocks acc bs)"
  by (induction bs arbitrary: acc) (auto split: option.splits dest: step)

lemma parse_nep_block_identity:
  assumes "parse_nep_block b subject_map = Some res"
  shows "nep_prn res \<noteq> [] \<and> list_all re_digit (nep_prn res)
       \<and> nep_seat_no res \<noteq> [] \<and> list_all re_digit (nep_seat_no res)"
proof -
  from assms obtain pm sm where
    pm: "re_search nep_prn_re b = Some pm" and sm: "re_search nep_seat_re b = Some sm"
    and f: "nep_prn res = strip (group_text pm 1)" "nep_seat_no res = strip (group_text sm 1)"
    by (auto simp: parse_nep_block_def Let_def split: option.splits)
  from nep_prn_digits[OF pm] nep_seat_digits[OF sm] f show ?thesis
    by (simp add: strip_digits)
qed

lemma parse_gazette_block_identity:
  assumes "parse_gazette_block b = Some res"
  shows "gz_seat_no res \<noteq> [] \<and> list_all re_digit (gz_seat_no res)
       \<and> gz_prn res \<noteq> [] \<and> list_all re_digit (gz_prn res)"
proof -
  from assms obtain im where
    im: "re_search info_re b = Some im"
    and f: "gz_seat_no res = strip (group_text im 1)" "gz_prn res = strip (group_text im 4)"
    by (auto simp: parse_gazette_block_def Let_def split: option.splits)
  from info_digits[OF im] f show ?thesis by (simp add: strip_digits)
qed

section \<open>Runs of the parsers on small ledgers\<close>

lemma sy_small_run:
  "case sy_main (Inr [page_of sy_small]) of
     Envelope md studs \<Rightarrow>
       map (\<lambda>s. (sy_prn s, sy_result s, sy_total_marks s, sy_dashboard_sgpa s)) studs
         = [(''7'', Some ''PASS'', ''8.0'', ''8.0'')]
   | Failure e \<Rightarrow> False"
  by code_simp

lemma nep_small_run:
  "case nep_main (Inr [page_of nep_small]) of
     Envelope md studs \<Rightarrow> map (\<lambda>s. (nep_prn s, nep_seat_no s)) studs = [(''7'', ''8'')]
   | Failure e \<Rightarrow> False"
  by code_simp

lemma gz_small_run:
  "case gz_main (Inr [page_of gz_small]) of
     Envelope md studs \<Rightarrow>
       map (\<lambda>s. (gz_seat_no s, gz_prn s)) studs = [(''1234'', ''1234567890'')]
   | Failure e \<Rightarrow> False"
  by code_simp

lemma run_single:
  "(case e of Envelope md studs \<Rightarrow> map g studs = [x] | Failure msg \<Rightarrow> False) \<Longrightarrow>
     success e \<and> (\<exists>s. student_data e = [s] \<and> g s = x)"
  by (cases e) (auto simp: success_def map_eq_Cons_conv)

section \<open>The result envelope\<close>

lemma nep_main_never_empty:
  "success (nep_main doc) \<Longrightarrow> student_data (nep_main doc) \<noteq> []"
  by (auto simp: nep_main_def success_def Let_def split: sum.splits if_splits)

lemma gz_main_never_empty:
  "success (gz_main doc) \<Longrightarrow> student_data (gz_main doc) \<noteq> []"
  by (auto simp: gz_main_def success_def Let_def split: sum.splits if_splits)

lemma sy_main_success: "success (sy_main (Inr pdf))"
  by (simp add: sy_main_def success_def Let_def)

lemma sy_no_students_run:
  "case sy_main (Inr [page_of ''College Ledger'']) of
     Envelope md studs \<Rightarrow> length studs = 0
   | Failure e \<Rightarrow> False"
  by code_simp

text \<open>
  C1. The NEP and the Gazette parser return \<open>success = False\<close> when no student record was
  extracted (the two lemmas above). The SY parser does not: on a ledger of one page whose
  text holds no student block, \<open>main\<close> of parser\_sy.py returns \<open>success = True\<close> together
  with an empty \<open>student_data\<close>.
\<close>

theorem sy_main_success_without_students:
  "success (sy_main (Inr [page_of ''College Ledger'']))
   \<and> student_data (sy_main (Inr [page_of ''College Ledger''])) = []"
  using sy_no_students_run
  by (cases "sy_main (Inr [page_of ''College Ledger''])") (simp_all add: success_def)

section \<open>Status inference\<close>

lemma sy_profile_result:
  "sy_result (sy_profile block st) =
     (case re_search result_re block of
        None \<Rightarrow> sy_result st
      | Some m \<Rightarrow> Some (upper (strip (group_text m 1))))"
  by (simp add: sy_profile_def Let_def split: option.splits)

text \<open>The SY parser, on a block without the phrase \<open>Second Year Result :\<close>: the result is
  \<open>FAIL\<close> when a grade of the block is one of \<open>F\<close>, \<open>FFF\<close>, \<open>FAIL\<close>, \<open>AB\<close>, \<open>Absent\<close>, and
  \<open>PASS\<close> otherwise.\<close>

lemma sy_status_inference:
  assumes "sy_block_body subject_map md block = Inr st"
    and "re_search result_re block = None"
  shows "sy_result st =
           Some (if list_ex (\<lambda>g. g \<in> set sy_fail_grades) (sy_all_grades st)
                 then ''FAIL'' else ''PASS'')"
proof -
  from assms(1) obtain st0 where
    p: "sy_parts subject_map None (sy_profile block (sy_new_student md))
          (re_split sem_split_re 1 block) = Inr st0"
    and s: "st = (sy_infer_result st0)\<lparr>
              sy_dashboard_sgpa := sy_current_sgpa (sy_infer_result st0) block,
              sy_total_marks := sy_current_sgpa (sy_infer_result st0) block\<rparr>"
    by (auto simp: sy_block_body_def bind_err_def Let_def split: sum.splits)
  from sy_parts_keeps[OF p] assms(2) have "sy_result st0 = None"
    by (simp add: sy_profile_result sy_new_student_def)
  with s show ?thesis
    by (simp add: sy_infer_result_def sy_all_grades_def)
qed

text \<open>The NEP parser, on a block without a \<open>First Year Result\<close> or \<open>First Year Total
  Credits Earned\<close> line: the result is \<open>PASS\<close> when at least one grade was parsed and none
  is \<open>F\<close>, \<open>FFF\<close> or \<open>FAIL\<close>, and \<open>FAIL\<close> otherwise.\<close>

lemma nep_status_inference:
  assumes "parse_nep_block block subject_map = Some res"
    and "re_search fy_res_re block = None"
  shows "nep_result res =
           (if \<not> list_ex (\<lambda>g. g \<in> set nep_fail_grades)
                    (nep_all_grades (re_split nep_sem_split_re 0 block))
               \<and> nep_all_grades (re_split nep_sem_split_re 0 block) \<noteq> []
            then ''PASS'' else ''FAIL'')"
  using assms
  by (auto simp: parse_nep_block_def Let_def nep_fy_text_def nep_resolve_result_def
      split: option.splits)

text \<open>
  C3. A block of the NEP pattern with one subject row whose grade is \<open>AB\<close>, and without any
  result phrase: the grade parsed is \<open>AB\<close>, the result text is empty, and
  \<open>parse_nep_block\<close> sets the result to \<open>PASS\<close>. The list of failing grades of this parser
  holds \<open>F\<close>, \<open>FFF\<close> and \<open>FAIL\<close> only; the SY parser (\<open>sy_status_inference\<close>) counts \<open>AB\<close>
  and \<open>Absent\<close> as well.
\<close>

theorem nep_absent_grade_passes:
  "nep_all_grades (re_split nep_sem_split_re 0 nep_absent_block) = [''AB'']
   \<and> map_option m_text (re_search fy_res_re nep_absent_block) = None
   \<and> map_option (\<lambda>s. (map grd (nep_sem1_subjects s), nep_fy_total_msg s, nep_result s))
        (parse_nep_block nep_absent_block no_names)
      = Some ([''AB''], [], ''PASS'')"
  by code_simp

section \<open>The SGPA of the dashboard\<close>

lemma sy_block_body_sgpa:
  assumes "sy_block_body subject_map md block = Inr st"
  shows "sy_total_marks st = sy_dashboard_sgpa st
       \<and> sy_dashboard_sgpa st = sy_current_sgpa st block"
  using assms
  by (auto simp: sy_block_body_def bind_err_def Let_def sy_current_sgpa_def split: sum.splits)


text \<open>
  C5, as the claim states it, at a block of the NEP pattern with a failed subject and a
  line \<open>Second Semester SGPA : 3.1\<close>: the result is \<open>FAIL\<close>, and \<open>dashboard_sgpa\<close> is
  \<open>3.1\<close>, not the sentinel.
\<close>

theorem nep_dashboard_sgpa_on_fail:
  "map_option (\<lambda>s. (map grd (nep_sem1_subjects s), nep_result s, nep_dashboard_sgpa s))
     (parse_nep_block nep_failed_block no_names)
   = Some ([''F''], ''FAIL'', ''3.1'')"
  by code_simp

text \<open>
  C5, amended. In the SY pattern, \<open>dashboard_sgpa\<close> of a block is the sentinel \<open>-\<close> unless the
  result of the student contains \<open>PASS\<close>; when it does, it is the figure of the first of
  the lines \<open>Fourth\<close>, \<open>Third\<close>, \<open>Second\<close>, \<open>First Semester SGPA :\<close> that the block contains,
  in this order, and \<open>-\<close> when it contains none. In the NEP pattern, \<open>dashboard_sgpa\<close> is
  the figure of \<open>Second Semester SGPA :\<close> when the block has one, otherwise the figure of
  \<open>First Semester SGPA :\<close>, otherwise \<open>-\<close>, whatever the result of the student is.
\<close>

theorem dashboard_sgpa_rule:
  "(sy_block_body subject_map md block = Inr st \<longrightarrow>
      sy_dashboard_sgpa st =
        (if contains ''PASS'' (upper (str_result (sy_result st))) then
           (case re_search (sgpa_re ''Fourth'') block of Some m \<Rightarrow> group_text m 1 | None \<Rightarrow>
            case re_search (sgpa_re ''Third'') block of Some m \<Rightarrow> group_text m 1 | None \<Rightarrow>
            case re_search (sgpa_re ''Second'') block of Some m \<Rightarrow> group_text m 1 | None \<Rightarrow>
            case re_search (sgpa_re ''First'') block of Some m \<Rightarrow> group_text m 1 | None \<Rightarrow>
            ''-'')
         else ''-''))
   \<and> (parse_nep_block block2 subject_map = Some res \<longrightarrow>
        nep_dashboard_sgpa res =
          (case re_search s2_val_re block2 of Some m \<Rightarrow> group_text m 1 | None \<Rightarrow>
           case re_search s1_val_re block2 of Some m \<Rightarrow> group_text m 1 | None \<Rightarrow>
           ''-''))"
proof (intro conjI impI)
  assume "sy_block_body subject_map md block = Inr st"
  from sy_block_body_sgpa[OF this] show "sy_dashboard_sgpa st =
        (if contains ''PASS'' (upper (str_result (sy_result st))) then
           (case re_search (sgpa_re ''Fourth'') block of Some m \<Rightarrow> group_text m 1 | None \<Rightarrow>
            case re_search (sgpa_re ''Third'') block of Some m \<Rightarrow> group_text m 1 | None \<Rightarrow>
            case re_search (sgpa_re ''Second'') block of Some m \<Rightarrow> group_text m 1 | None \<Rightarrow>
            case re_search (sgpa_re ''First'') block of Some m \<Rightarrow> group_text m 1 | None \<Rightarrow>
            ''-'')
         else ''-'')"
    by (simp add: sy_current_sgpa_def split: option.splits)
next
  assume "parse_nep_block block2 subject_map = Some res"
  then show "nep_dashboard_sgpa res =
          (case re_search s2_val_re block2 of Some m \<Rightarrow> group_text m 1 | None \<Rightarrow>
           case re_search s1_val_re block2 of Some m \<Rightarrow> group_text m 1 | None \<Rightarrow>
           ''-'')"
    by (auto simp: parse_nep_block_def Let_def nep_dashboard_def split: option.splits)
qed

lemma sy_small_block:
  "case sy_block_body no_names sy_default_metadata sy_small of
     Inl e \<Rightarrow> False
   | Inr st \<Rightarrow> sy_result st = Some ''PASS''
       \<and> map_option m_text (re_search (sgpa_re ''Fourth'') sy_small) = None
       \<and> map_option m_text (re_search (sgpa_re ''Third'') sy_small) = None
       \<and> map_option m_text (re_search (sgpa_re ''Second'') sy_small) = None
       \<and> map_option (\<lambda>m. group_text m 1) (re_search (sgpa_re ''First'') sy_small) = Some ''8.0''"
  by code_simp

lemma nep_failed_searches:
  "map_option (\<lambda>m. group_text m 1) (re_search s2_val_re nep_failed_block) = Some ''3.1''
   \<and> map_option nep_result (parse_nep_block nep_failed_block no_names) = Some ''FAIL''"
  by code_simp

theorem dashboard_sgpa_rule_witness:
  "(case sy_block_body no_names sy_default_metadata sy_small of
      Inl e \<Rightarrow> False
    | Inr st \<Rightarrow> sy_result st = Some ''PASS'' \<and> sy_dashboard_sgpa st = ''8.0'')
   \<and> map_option (\<lambda>s. (nep_result s, nep_dashboard_sgpa s))
        (parse_nep_block nep_failed_block no_names) = Some (''FAIL'', ''3.1'')"
proof -
  from sy_small_block obtain st where
    b: "sy_block_body no_names sy_default_metadata sy_small = Inr st"
    and r: "sy_result st = Some ''PASS''"
    and s: "re_search (sgpa_re ''Fourth'') sy_small = None"
       "re_search (sgpa_re ''Third'') sy_small = None"
       "re_search (sgpa_re ''Second'') sy_small = None"
       "map_option (\<lambda>m. group_text m 1) (re_search (sgpa_re ''First'') sy_small) = Some ''8.0''"
    by (auto split: sum.splits)
  have p: "contains ''PASS'' (upper (str_result (Some ''PASS'')))"
    by (simp add: str_result_def upper_def upper_chars_def upper_char_def clear5_def islower_az_def)
  from nep_failed_searches obtain res where
    n: "parse_nep_block nep_failed_block no_names = Some res" "nep_result res = ''FAIL''"
    and v: "map_option (\<lambda>m. group_text m 1) (re_search s2_val_re nep_failed_block) = Some ''3.1''"
    by auto
  from dashboard_sgpa_rule[of no_names sy_default_metadata sy_small st nep_failed_block res]
    b r s p n v
  show ?thesis by auto
qed

section \<open>Identity of the emitted records\<close>

lemma sy_blocks_without_prn:
  assumes "re_search prn_re block = None"
  shows "snd (sy_blocks subject_map acc [block]) = snd acc"
proof (cases "contains ''SEMESTER'' block")
  case False
  then show ?thesis by simp
next
  case True
  show ?thesis
  proof (cases "sy_block_body subject_map (sy_block_metadata (fst acc) block) block")
    case (Inl e)
    with True show ?thesis by (simp add: Let_def)
  next
    case (Inr st)
    from sy_block_body_prn[OF Inr] assms have "sy_prn st = ''-''" by simp
    with True Inr show ?thesis by (simp add: Let_def)
  qed
qed

text \<open>
  C6. Every student record that \<open>main\<close> of one of the three parsers returns has an
  identity: in the SY pattern its \<open>prn\<close> is a non-empty string of digits (so it is not the
  default \<open>-\<close>), in the NEP and the Gazette pattern both \<open>prn\<close> and \<open>seat_no\<close> are non-empty
  strings of digits. A block whose identity pattern does not match is dropped: in the SY
  pattern it is not appended, in the other two the block parser returns \<open>None\<close>.
\<close>

theorem emitted_records_have_identity:
  "(success (sy_main doc1) \<longrightarrow>
      list_all (\<lambda>s. sy_prn s \<noteq> [] \<and> list_all re_digit (sy_prn s))
        (student_data (sy_main doc1)))
   \<and> (success (nep_main doc2) \<longrightarrow>
      list_all (\<lambda>s. nep_prn s \<noteq> [] \<and> list_all re_digit (nep_prn s)
                   \<and> nep_seat_no s \<noteq> [] \<and> list_all re_digit (nep_seat_no s))
        (student_data (nep_main doc2)))
   \<and> (success (gz_main doc3) \<longrightarrow>
      list_all (\<lambda>s. gz_seat_no s \<noteq> [] \<and> list_all re_digit (gz_seat_no s)
                   \<and> gz_prn s \<noteq> [] \<and> list_all re_digit (gz_prn s))
        (student_data (gz_main doc3)))
   \<and> (re_search prn_re block1 = None \<longrightarrow>
        snd (sy_blocks subject_map acc [block1]) = snd acc)
   \<and> (re_search nep_prn_re block2 = None \<or> re_search nep_seat_re block2 = None \<longrightarrow>
        parse_nep_block block2 subject_map = None)
   \<and> (re_search info_re block3 = None \<longrightarrow> parse_gazette_block block3 = None)"
proof (intro conjI impI)
  assume "success (sy_main doc1)"
  then show "list_all (\<lambda>s. sy_prn s \<noteq> [] \<and> list_all re_digit (sy_prn s))
        (student_data (sy_main doc1))"
  proof (rule sy_main_all[rotated])
    fix sm md block st
    assume b: "sy_block_body sm md block = Inr st" and n: "sy_prn st \<noteq> ''-''"
    from sy_block_body_prn[OF b] n obtain m where
      "re_search prn_re block = Some m" "sy_prn st = group_text m 1"
      by (auto split: option.splits)
    with prn_digits show "sy_prn st \<noteq> [] \<and> list_all re_digit (sy_prn st)" by simp
  qed
next
  assume "success (nep_main doc2)"
  then obtain pdf where d: "doc2 = Inr pdf"
    by (cases doc2) (auto simp: nep_main_def success_def)
  have "list_all (\<lambda>s. nep_prn s \<noteq> [] \<and> list_all re_digit (nep_prn s)
                   \<and> nep_seat_no s \<noteq> [] \<and> list_all re_digit (nep_seat_no s))
          (nep_pages sm md [] pdf)" for sm md
    by (rule nep_pages_all) (auto dest: parse_nep_block_identity)
  with d \<open>success (nep_main doc2)\<close>
  show "list_all (\<lambda>s. nep_prn s \<noteq> [] \<and> list_all re_digit (nep_prn s)
                   \<and> nep_seat_no s \<noteq> [] \<and> list_all re_digit (nep_seat_no s))
        (student_data (nep_main doc2))"
    by (auto simp: nep_main_def Let_def success_def split: if_splits)
next
  assume "success (gz_main doc3)"
  then obtain pdf where d: "doc3 = Inr pdf"
    by (cases doc3) (auto simp: gz_main_def success_def)
  have "list_all (\<lambda>s. gz_seat_no s \<noteq> [] \<and> list_all re_digit (gz_seat_no s)
                   \<and> gz_prn s \<noteq> [] \<and> list_all re_digit (gz_prn s))
          (gz_blocks [] bs)" for bs
    by (rule gz_blocks_all) (auto dest: parse_gazette_block_identity)
  with d \<open>success (gz_main doc3)\<close>
  show "list_all (\<lambda>s. gz_seat_no s \<noteq> [] \<and> list_all re_digit (gz_seat_no s)
                   \<and> gz_prn s \<noteq> [] \<and> list_all re_digit (gz_prn s))
        (student_data (gz_main doc3))"
    by (auto simp: gz_main_def Let_def success_def analyze_gazette_pattern_def split: if_splits)
next
  assume "re_search prn_re block1 = None"
  then show "snd (sy_blocks subject_map acc [block1]) = snd acc"
    by (rule sy_blocks_without_prn)
next
  assume "re_search nep_prn_re block2 = None \<or> re_search nep_seat_re block2 = None"
  then show "parse_nep_block block2 subject_map = None"
    by (auto simp: parse_nep_block_def split: option.splits)
next
  assume "re_search info_re block3 = None"
  then show "parse_gazette_block block3 = None"
    by (simp add: parse_gazette_block_def)
qed

lemma no_identity_searches:
  "Option.is_none (re_search prn_re ''SEMESTER: 1'')
   \<and> Option.is_none (re_search nep_prn_re ''SEMESTER: 1'')
   \<and> Option.is_none (re_search info_re ''SEMESTER: 1'')"
  by code_simp

theorem emitted_records_have_identity_witness:
  "map sy_prn (student_data (sy_main (Inr [page_of sy_small]))) = [''7'']
   \<and> list_all (\<lambda>s. sy_prn s \<noteq> [] \<and> list_all re_digit (sy_prn s))
        (student_data (sy_main (Inr [page_of sy_small])))
   \<and> map (\<lambda>s. (nep_prn s, nep_seat_no s))
        (student_data (nep_main (Inr [page_of nep_small]))) = [(''7'', ''8'')]
   \<and> list_all (\<lambda>s. nep_prn s \<noteq> [] \<and> list_all re_digit (nep_prn s)
                   \<and> nep_seat_no s \<noteq> [] \<and> list_all re_digit (nep_seat_no s))
        (student_data (nep_main (Inr [page_of nep_small])))
   \<and> map (\<lambda>s. (gz_seat_no s, gz_prn s))
        (student_data (gz_main (Inr [page_of gz_small]))) = [(''1234'', ''1234567890'')]
   \<and> list_all (\<lambda>s. gz_seat_no s \<noteq> [] \<and> list_all re_digit (gz_seat_no s)
                   \<and> gz_prn s \<noteq> [] \<and> list_all re_digit (gz_prn s))
        (student_data (gz_main (Inr [page_of gz_small])))
   \<and> snd (sy_blocks no_names (sy_default_metadata, []) [''SEMESTER: 1'']) = []
   \<and> parse_nep_block ''SEMESTER: 1'' no_names = None
   \<and> parse_gazette_block ''SEMESTER: 1'' = None"
proof -
  from run_single[OF sy_small_run] obtain s1 where
    r1: "success (sy_main (Inr [page_of sy_small]))"
      "student_data (sy_main (Inr [page_of sy_small])) = [s1]" "sy_prn s1 = ''7''"
    by auto
  from run_single[OF nep_small_run] obtain s2 where
    r2: "success (nep_main (Inr [page_of nep_small]))"
      "student_data (nep_main (Inr [page_of nep_small])) = [s2]"
      "nep_prn s2 = ''7''" "nep_seat_no s2 = ''8''"
    by auto
  from run_single[OF gz_small_run] obtain s3 where
    r3: "success (gz_main (Inr [page_of gz_small]))"
      "student_data (gz_main (Inr [page_of gz_small])) = [s3]"
      "gz_seat_no s3 = ''1234''" "gz_prn s3 = ''1234567890''"
    by auto
  from no_identity_searches have n:
    "re_search prn_re ''SEMESTER: 1'' = None"
    "re_search nep_prn_re ''SEMESTER: 1'' = None"
    "re_search info_re ''SEMESTER: 1'' = None"
    by (simp_all add: Option.is_none_def)
  from emitted_records_have_identity[of "Inr [page_of sy_small]" "Inr [page_of nep_small]"
      "Inr [page_of gz_small]" "''SEMESTER: 1''" no_names "(sy_default_metadata, [])"
      "''SEMESTER: 1''" "''SEMESTER: 1''"]
    r1 r2 r3 n
  show ?thesis by simp
qed

section \<open>The field total\_marks of the SY pattern\<close>



section \<open>Joining a symbol to its mark\<close>

text \<open>
  C9, as the claim states it, with the prefix symbols that the specification lists
  (\<open>* $ P ~ # @\<close> and the two-letter absence codes): the loop of the NEP parser leaves
  \<open>$\<close> and the mark after it as two fields, and the loop of the SY parser leaves the
  absence code \<open>AA\<close> and the token after it as two fields.
\<close>

theorem prefix_not_merged:
  "nep_merge [''$'', ''45'', ''38''] = [''$'', ''45'', ''38'']
   \<and> merge_marks [''AA'', ''45'', ''38''] = [''AA'', ''45'', ''38'']"
  by simp

text \<open>
  C9, amended. The marks \<open>P 45 38\<close> are merged to the two fields \<open>P 45\<close> and \<open>38\<close>, by the
  loop of the SY parser and by the loop of the NEP parser, and the first field is then
  split into the prefix \<open>P\<close> and the value \<open>45\<close>. In general, each parser merges its own
  prefix symbols only: in the SY parser a token that is one of \<open>P * ~ # $ @\<close> and is
  followed by another token is merged with it into one field, the two separated by a
  blank, while \<open>---\<close>, \<open>AAA\<close> and \<open>AA\<close> and every other token stay fields of their own; in
  the NEP parser a token that is one of \<open>P\<close>, \<open>*\<close>, \<open>AA\<close> and is followed by another token
  is merged with it, and every other token (so \<open>$\<close>, \<open>~\<close>, \<open>#\<close>, \<open>@\<close>) stays a field of its
  own.
\<close>

theorem prefix_merge:
  "merge_marks [''P'', ''45'', ''38''] = [''P 45'', ''38'']
   \<and> split_prefix_marks ''P 45'' = (''P'', ''45'')
   \<and> nep_merge [''P'', ''45'', ''38''] = [''P 45'', ''38'']
   \<and> nep_mark ''P 45'' = Inr (''P'', ''45'')
   \<and> (t \<in> set [''P'', ''*'', ''~'', ''#'', ''$'', ''@''] \<longrightarrow>
        merge_marks (t # n # ts) = (t @ '' '' @ n) # merge_marks ts)
   \<and> (u \<notin> set [''P'', ''*'', ''~'', ''#'', ''$'', ''@''] \<longrightarrow>
        merge_marks (u # n # ts) = u # merge_marks (n # ts))
   \<and> (v \<in> set [''P'', ''*'', ''AA''] \<longrightarrow>
        nep_merge (v # n # ts) = (v @ '' '' @ n) # nep_merge ts)
   \<and> (w \<notin> set [''P'', ''*'', ''AA''] \<longrightarrow>
        nep_merge (w # n # ts) = w # nep_merge (n # ts))"
proof (intro conjI impI)
  show "split_prefix_marks ''P 45'' = (''P'', ''45'')"
    by (simp add: split_prefix_marks_def strip_def isspace_def split_def)
  show "nep_mark ''P 45'' = Inr (''P'', ''45'')"
    by (simp add: nep_mark_def split_def isspace_def py_index_def bind_err_def)
qed auto

theorem prefix_merge_witness:
  "merge_marks [''*'', ''45'', ''38''] = [''* 45'', ''38'']
   \<and> merge_marks [''AA'', ''45'', ''38''] = ''AA'' # merge_marks [''45'', ''38'']
   \<and> nep_merge [''AA'', ''45'', ''38''] = [''AA 45'', ''38'']
   \<and> nep_merge [''$'', ''45'', ''38''] = ''$'' # nep_merge [''45'', ''38'']"
  using prefix_merge[of "''*''" "''45''" "[''38'']" "''AA''" "''AA''" "''$''"] by simp

section \<open>Metadata of the document\<close>

lemma gz_pun_code_none: "pun_code (gz_extract_header_metadata pdf) = None"
  by (cases pdf)
    (auto simp: gz_extract_header_metadata_def gz_header_body_def py_index_def bind_err_def
      gz_default_metadata_def Let_def split: option.splits sum.splits)

text \<open>
  C7, as the claim states it, at a Gazette ledger whose first page is the line
  \<open>RESULT OF THE BACHELOR OF ARTS EXAMINATION\<close>: the field \<open>pun_code\<close>, which this
  parser does not recover, is \<open>None\<close> and not the text \<open>Unknown\<close>.
\<close>

theorem gazette_pun_code_is_none:
  "pun_code (gz_extract_header_metadata
       [page_of ''RESULT OF THE BACHELOR OF ARTS EXAMINATION'']) = None
   \<and> pun_code (gz_extract_header_metadata
       [page_of ''RESULT OF THE BACHELOR OF ARTS EXAMINATION'']) \<noteq> Some ''Unknown''"
  by (simp add: gz_pun_code_none)

text \<open>
  C7, amended. No metadata extractor raises: the only exception in their bodies is the
  \<open>IndexError\<close> of \<open>pdf.pages[0]\<close> on a ledger without pages, in the NEP and the Gazette
  parser, and it is caught, the defaults being returned. In the SY and the NEP parser each
  of \<open>pun_code\<close>, \<open>course_name\<close> and \<open>college_name\<close> is the text \<open>Unknown\<close> when none of the
  patterns for that field matches the header text. In the Gazette parser \<open>course_name\<close>
  and \<open>college_name\<close> are \<open>Unknown\<close> in that case, and \<open>pun_code\<close> is always \<open>None\<close>: this
  parser has no pattern for it.
\<close>

theorem metadata_defaults:
  "(re_search pun_re (concat (map (\<lambda>p. text_of p X2) (take 2 pdf))) = None \<longrightarrow>
      pun_code (sy_extract_header_metadata pdf) = Some ''Unknown'')
   \<and> (re_search sy_course_re (concat (map (\<lambda>p. text_of p X2) (take 2 pdf))) = None \<longrightarrow>
      course_name (sy_extract_header_metadata pdf) = ''Unknown'')
   \<and> (re_search sy_college_re (concat (map (\<lambda>p. text_of p X2) (take 2 pdf))) = None
      \<and> re_search sy_college_fallback_re (concat (map (\<lambda>p. text_of p X2) (take 2 pdf))) = None
      \<longrightarrow> college_name (sy_extract_header_metadata pdf) = ''Unknown'')
   \<and> (nep_header_body pdf = Inl e \<longrightarrow> pdf = [] \<and> e = IndexError)
   \<and> nep_extract_header_metadata [] = nep_default_metadata
   \<and> (re_search pun_re (text_of p Default) = None \<longrightarrow>
      pun_code (nep_extract_header_metadata (p # ps)) = Some ''Unknown'')
   \<and> (re_search nep_course_re (text_of p Default) = None
      \<and> re_search nep_course_fallback_re (text_of p Default) = None \<longrightarrow>
      course_name (nep_extract_header_metadata (p # ps)) = ''Unknown'')
   \<and> (re_search nep_college_re (text_of p Default) = None \<longrightarrow>
      college_name (nep_extract_header_metadata (p # ps)) = ''Unknown'')
   \<and> (gz_header_body pdf = Inl e \<longrightarrow> pdf = [] \<and> e = IndexError)
   \<and> gz_extract_header_metadata [] = gz_default_metadata
   \<and> pun_code (gz_extract_header_metadata pdf) = None
   \<and> (re_search gz_course_re (text_of p X2) = None
      \<and> re_search gz_course_fallback_re (text_of p X2) = None \<longrightarrow>
      course_name (gz_extract_header_metadata (p # ps)) = ''Unknown'')
   \<and> (re_search gz_college_re (text_of p X2) = None
      \<and> re_search gz_college_fallback_re (text_of p X2) = None \<longrightarrow>
      college_name (gz_extract_header_metadata (p # ps)) = ''Unknown'')"
proof (intro conjI)
  show "nep_extract_header_metadata [] = nep_default_metadata"
    by (simp add: nep_extract_header_metadata_def nep_header_body_def py_index_def bind_err_def)
  show "gz_extract_header_metadata [] = gz_default_metadata"
    by (simp add: gz_extract_header_metadata_def gz_header_body_def py_index_def bind_err_def)
  show "pun_code (gz_extract_header_metadata pdf) = None"
    by (rule gz_pun_code_none)
  show "nep_header_body pdf = Inl e \<longrightarrow> pdf = [] \<and> e = IndexError"
    by (cases pdf)
      (auto simp: nep_header_body_def py_index_def bind_err_def Let_def
        split: option.splits if_splits)
  show "gz_header_body pdf = Inl e \<longrightarrow> pdf = [] \<and> e = IndexError"
    by (cases pdf)
      (auto simp: gz_header_body_def py_index_def bind_err_def Let_def
        split: option.splits if_splits)
qed (auto simp: sy_extract_header_metadata_def sy_default_metadata_def
      nep_extract_header_metadata_def nep_header_body_def nep_default_metadata_def
      gz_extract_header_metadata_def gz_header_body_def gz_default_metadata_def
      py_index_def bind_err_def text_of_def Let_def split: option.splits)

lemma no_header_searches:
  "Option.is_none (re_search pun_re ''hello'')
   \<and> Option.is_none (re_search sy_course_re ''hello'')
   \<and> Option.is_none (re_search sy_college_re ''hello'')
   \<and> Option.is_none (re_search sy_college_fallback_re ''hello'')
   \<and> Option.is_none (re_search nep_course_re ''hello'')
   \<and> Option.is_none (re_search nep_course_fallback_re ''hello'')
   \<and> Option.is_none (re_search nep_college_re ''hello'')
   \<and> Option.is_none (re_search gz_course_re ''hello'')
   \<and> Option.is_none (re_search gz_course_fallback_re ''hello'')
   \<and> Option.is_none (re_search gz_college_re ''hello'')
   \<and> Option.is_none (re_search gz_college_fallback_re ''hello'')"
  by code_simp

theorem metadata_defaults_witness:
  "pun_code (sy_extract_header_metadata [page_of ''hello'']) = Some ''Unknown''
   \<and> course_name (sy_extract_header_metadata [page_of ''hello'']) = ''Unknown''
   \<and> college_name (sy_extract_header_metadata [page_of ''hello'']) = ''Unknown''
   \<and> pun_code (nep_extract_header_metadata [page_of ''hello'']) = Some ''Unknown''
   \<and> course_name (nep_extract_header_metadata [page_of ''hello'']) = ''Unknown''
   \<and> college_name (nep_extract_header_metadata [page_of ''hello'']) = ''Unknown''
   \<and> pun_code (gz_extract_header_metadata [page_of ''hello'']) = None
   \<and> course_name (gz_extract_header_metadata [page_of ''hello'']) = ''Unknown''
   \<and> college_name (gz_extract_header_metadata [page_of ''hello'']) = ''Unknown''
   \<and> nep_header_body [] = Inl IndexError
   \<and> gz_header_body [] = Inl IndexError"
proof -
  have e: "nep_header_body [] = Inl IndexError" "gz_header_body [] = Inl IndexError"
    by (simp_all add: nep_header_body_def gz_header_body_def py_index_def bind_err_def)
  from no_header_searches have n:
    "re_search pun_re ''hello'' = None" "re_search sy_course_re ''hello'' = None"
    "re_search sy_college_re ''hello'' = None" "re_search sy_college_fallback_re ''hello'' = None"
    "re_search nep_course_re ''hello'' = None" "re_search nep_course_fallback_re ''hello'' = None"
    "re_search nep_college_re ''hello'' = None"
    "re_search gz_course_re ''hello'' = None" "re_search gz_course_fallback_re ''hello'' = None"
    "re_search gz_college_re ''hello'' = None" "re_search gz_college_fallback_re ''hello'' = None"
    by (simp_all add: Option.is_none_def)
  from metadata_defaults[of "[page_of ''hello'']" "IndexError" "page_of ''hello''" "[]"] n e
  show ?thesis by (simp add: text_of_def page_of_def)
qed

end
